theory Spec2Isabelle
  imports Complex_Main "HOL-Library.Multiset"
begin

section \<open>Python built-ins used by the monitor\<close>

text \<open>
  The monitor (\<^verbatim>\<open>mayorista_monitor.py\<close>) leans on a handful of Python built-ins whose
  corner cases decide several properties: \<^verbatim>\<open>str.strip\<close>, \<^verbatim>\<open>str.lower\<close>,
  \<^verbatim>\<open>float(str)\<close>, \<^verbatim>\<open>int(float)\<close>, \<^verbatim>\<open>int(str)\<close> and \<^verbatim>\<open>re.sub\<close>. They are modelled
  here as CPython 3 defines them. A \<^typ>\<open>char\<close> stands for the code point of the same number
  (0 to 255), so a \<^typ>\<open>string\<close> is a Python \<^verbatim>\<open>str\<close> over code points below 256.
  Exceptions are values: a function that may raise returns \<open>py_error + 'a\<close>.
\<close>

datatype py_error =
  ValueError | TypeError | OverflowError | AttributeError | RequestException | OtherException

subsection \<open>Characters\<close>

text \<open>
  \<^verbatim>\<open>str.isspace\<close> holds below 256 for TAB, LF, VT, FF, CR, the four separators
  U+001C to U+001F, the blank, U+0085 and U+00A0; these are the characters
  \<^verbatim>\<open>str.strip()\<close> removes.
\<close>

definition py_isspace :: "char \<Rightarrow> bool" where
  "py_isspace c = (of_char c \<in> {9, 10, 11, 12, 13, 28, 29, 30, 31, 32, 133, 160 :: nat})"

text \<open>
  \<^verbatim>\<open>float(str)\<close> and \<^verbatim>\<open>int(str)\<close> trim less: the C-level test \<^verbatim>\<open>Py_ISSPACE\<close> knows
  TAB, LF, VT, FF, CR and the blank only, and the conversion to ASCII that precedes it
  turns the non-ASCII spaces U+0085 and U+00A0 into blanks. The separators U+001C to
  U+001F are left alone, and are then no part of a number.
\<close>

definition num_space :: "char \<Rightarrow> bool" where
  "num_space c = (of_char c \<in> {9, 10, 11, 12, 13, 32, 133, 160 :: nat})"

definition is_digit :: "char \<Rightarrow> bool" where
  "is_digit c = (48 \<le> (of_char c :: nat) \<and> (of_char c :: nat) \<le> 57)"

text \<open>
  \<^verbatim>\<open>str.lower\<close>: below 256 the cased capitals are A to Z and U+00C0 to U+00DE without the
  multiplication sign U+00D7; each maps to the code point 32 above it.
\<close>

definition py_lower_char :: "char \<Rightarrow> char" where
  "py_lower_char c =
     (let n = (of_char c :: nat)
      in if (65 \<le> n \<and> n \<le> 90) \<or> (192 \<le> n \<and> n \<le> 222 \<and> n \<noteq> 215)
         then char_of (n + 32) else c)"

definition py_lower :: "string \<Rightarrow> string" where
  "py_lower s = map py_lower_char s"

definition strip_with :: "(char \<Rightarrow> bool) \<Rightarrow> string \<Rightarrow> string" where
  "strip_with p s = rev (dropWhile p (rev (dropWhile p s)))"

definition py_strip :: "string \<Rightarrow> string" where
  "py_strip s = strip_with py_isspace s"

definition startswith :: "string \<Rightarrow> string \<Rightarrow> bool" where
  "startswith s p = (take (length p) s = p)"

subsection \<open>Numerals\<close>

definition digits_val :: "string \<Rightarrow> nat" where
  "digits_val ds = foldl (\<lambda>a c. 10 * a + (of_char c - 48)) 0 ds"

text \<open>
  Both \<^verbatim>\<open>float\<close> and \<^verbatim>\<open>int\<close> accept single underscores between digits. CPython walks
  the text with the previous character in hand (initially NUL): an underscore must follow
  a digit, the character after an underscore must be a digit, and the text must not end
  with an underscore.
\<close>

fun underscores_ok :: "char \<Rightarrow> string \<Rightarrow> bool" where
  "underscores_ok prev [] = (prev \<noteq> CHR ''_'')"
| "underscores_ok prev (c # cs) =
     (if c = CHR ''_'' then is_digit prev \<and> underscores_ok c cs
      else if prev = CHR ''_'' then is_digit c \<and> underscores_ok c cs
      else underscores_ok c cs)"

definition drop_underscores :: "string \<Rightarrow> string" where
  "drop_underscores s = filter (\<lambda>c. c \<noteq> CHR ''_'') s"

subsection \<open>\<^verbatim>\<open>int(str)\<close>\<close>

text \<open>
  Base 10: surrounding whitespace is trimmed, one sign is allowed, then at least one
  digit, digits possibly grouped by underscores. Anything else raises \<^verbatim>\<open>ValueError\<close>.
  (The cap on the number of digits that CPython 3.11 introduced, 4300 by default and also
  a \<^verbatim>\<open>ValueError\<close>, is not modelled.)
\<close>

definition int_digits :: "string \<Rightarrow> py_error + nat" where
  "int_digits b =
     (if b \<noteq> [] \<and> underscores_ok (CHR 0x00) b \<and> list_all is_digit (drop_underscores b)
      then Inr (digits_val (drop_underscores b)) else Inl ValueError)"

definition py_int :: "string \<Rightarrow> py_error + int" where
  "py_int s =
     (case strip_with num_space s of
        c # b \<Rightarrow>
          (if c = CHR ''-'' then map_sum id (\<lambda>n. - int n) (int_digits b)
           else if c = CHR ''+'' then map_sum id int (int_digits b)
           else map_sum id int (int_digits (c # b)))
      | [] \<Rightarrow> Inl ValueError)"

subsection \<open>\<^verbatim>\<open>float(str)\<close> and \<^verbatim>\<open>int(float)\<close>\<close>

text \<open>
  A float is a finite value, an infinity or a NaN. Finite values are the rationals that
  binary64 represents; the sign of zero is dropped, since \<^verbatim>\<open>int\<close> does not see it.
\<close>

datatype pyfloat = Fin rat | PInf | NInf | NaN

fun bit_length :: "nat \<Rightarrow> nat" where
  "bit_length n = (if n = 0 then 0 else Suc (bit_length (n div 2)))"

declare bit_length.simps [simp del]

definition pow2 :: "int \<Rightarrow> rat" where
  "pow2 e = (if 0 \<le> e then 2 ^ nat e else 1 / 2 ^ nat (- e))"

definition pow10 :: "int \<Rightarrow> rat" where
  "pow10 e = (if 0 \<le> e then 10 ^ nat e else 1 / 10 ^ nat (- e))"

text \<open>The exponent of the binade of a positive rational: \<open>2 ^ e \<le> q < 2 ^ (e + 1)\<close>.\<close>

definition floor_log2 :: "rat \<Rightarrow> int" where
  "floor_log2 q =
     (let (a, b) = quotient_of q;
          d = int (bit_length (nat a)) - int (bit_length (nat b))
      in if pow2 d \<le> q then d else d - 1)"

definition round_half_even :: "rat \<Rightarrow> int" where
  "round_half_even m =
     (let f = \<lfloor>m\<rfloor>; d = m - of_int f
      in if d < 1 / 2 then f else if 1 / 2 < d then f + 1
         else if even f then f else f + 1)"

text \<open>
  Correct rounding to binary64 (round to nearest, ties to even), as CPython's
  \<^verbatim>\<open>strtod\<close> does it: 53 significant bits, exponents from \<open>-1022\<close> (subnormals below),
  overflow to infinity from \<open>2 ^ 1024\<close> on.
\<close>

definition round_double :: "rat \<Rightarrow> pyfloat" where
  "round_double q =
     (if q = 0 then Fin 0
      else
        let a = \<bar>q\<bar>;
            e = max (floor_log2 a) (- 1022);
            ulp = pow2 (e - 52);
            r = of_int (round_half_even (a / ulp)) * ulp
        in if 2 ^ 1024 \<le> r then (if 0 < q then PInf else NInf)
           else Fin (if 0 < q then r else - r))"

text \<open>
  The exponent part: nothing, or \<^verbatim>\<open>e\<close>/\<^verbatim>\<open>E\<close>, an optional sign and at least one digit.
\<close>

definition parse_exponent :: "string \<Rightarrow> int option" where
  "parse_exponent r =
     (case r of
        [] \<Rightarrow> Some 0
      | c # t \<Rightarrow>
          (if c = CHR ''e'' \<or> c = CHR ''E'' then
             (let neg = (case t of [] \<Rightarrow> False | d # _ \<Rightarrow> d = CHR ''-'');
                  ds = (case t of [] \<Rightarrow> []
                        | d # u \<Rightarrow> if d = CHR ''-'' \<or> d = CHR ''+'' then u else t)
              in if ds \<noteq> [] \<and> list_all is_digit ds
                 then Some (if neg then - int (digits_val ds) else int (digits_val ds))
                 else None)
           else None))"

text \<open>
  The decimal part: digits, then optionally a point and digits, with at least one digit
  on one side of the point; then the exponent. The value is exact.
\<close>

definition parse_decimal :: "string \<Rightarrow> rat option" where
  "parse_decimal s =
     (let ip = takeWhile is_digit s;
          r1 = dropWhile is_digit s;
          fp = (case r1 of [] \<Rightarrow> []
                | c # t \<Rightarrow> if c = CHR ''.'' then takeWhile is_digit t else []);
          r2 = (case r1 of [] \<Rightarrow> []
                | c # t \<Rightarrow> if c = CHR ''.'' then dropWhile is_digit t else r1)
      in if ip = [] \<and> fp = [] then None
         else (case parse_exponent r2 of
                 None \<Rightarrow> None
               | Some e \<Rightarrow>
                   Some (of_nat (digits_val (ip @ fp)) * pow10 (e - int (length fp)))))"

definition parse_unsigned :: "string \<Rightarrow> pyfloat option" where
  "parse_unsigned b =
     (if py_lower b = ''inf'' \<or> py_lower b = ''infinity'' then Some PInf
      else if py_lower b = ''nan'' then Some NaN
      else map_option round_double (parse_decimal b))"

fun negate :: "pyfloat \<Rightarrow> pyfloat" where
  "negate (Fin r) = Fin (- r)"
| "negate PInf = NInf"
| "negate NInf = PInf"
| "negate NaN = NaN"

definition py_float :: "string \<Rightarrow> py_error + pyfloat" where
  "py_float s =
     (let t = strip_with num_space s
      in if \<not> underscores_ok (CHR 0x00) t then Inl ValueError
         else
           (let u = drop_underscores t;
                neg = (case u of [] \<Rightarrow> False | c # _ \<Rightarrow> c = CHR ''-'');
                b = (case u of [] \<Rightarrow> []
                     | c # v \<Rightarrow> if c = CHR ''-'' \<or> c = CHR ''+'' then v else u)
            in case parse_unsigned b of
                 None \<Rightarrow> Inl ValueError
               | Some x \<Rightarrow> Inr (if neg then negate x else x)))"

text \<open>
  \<^verbatim>\<open>int(float)\<close> truncates towards zero; it raises \<^verbatim>\<open>OverflowError\<close> on an infinity
  and \<^verbatim>\<open>ValueError\<close> on a NaN.
\<close>

fun py_int_of_float :: "pyfloat \<Rightarrow> py_error + int" where
  "py_int_of_float (Fin r) = Inr (if 0 \<le> r then \<lfloor>r\<rfloor> else \<lceil>r\<rceil>)"
| "py_int_of_float PInf = Inl OverflowError"
| "py_int_of_float NInf = Inl OverflowError"
| "py_int_of_float NaN = Inl ValueError"

text \<open>The composition \<^verbatim>\<open>int(float(s))\<close>; the first exception raised wins.\<close>

definition int_float :: "string \<Rightarrow> py_error + int" where
  "int_float s = (case py_float s of Inl e \<Rightarrow> Inl e | Inr x \<Rightarrow> py_int_of_float x)"

subsection \<open>\<^verbatim>\<open>re.sub(r'<[^>]+>', '', s)\<close>\<close>

text \<open>
  The pattern matches a \<^verbatim>\<open><\<close>, then the longest run of characters other than
  \<^verbatim>\<open>>\<close> (line breaks included), which must not be empty, then a \<^verbatim>\<open>>\<close>. So a match
  starts at a \<^verbatim>\<open><\<close> whose next character is not \<^verbatim>\<open>>\<close> and that has a \<^verbatim>\<open>>\<close>
  somewhere after it, and it ends at the first such \<^verbatim>\<open>>\<close>. Matches are removed from
  left to right; the scan resumes after each match, and one character further where
  there is none.
\<close>

function re_sub_tags :: "string \<Rightarrow> string" where
  "re_sub_tags [] = []"
| "re_sub_tags (c # cs) =
     (if c = CHR ''<'' \<and> takeWhile (\<lambda>x. x \<noteq> CHR ''>'') cs \<noteq> []
           \<and> dropWhile (\<lambda>x. x \<noteq> CHR ''>'') cs \<noteq> []
      then re_sub_tags (tl (dropWhile (\<lambda>x. x \<noteq> CHR ''>'') cs))
      else c # re_sub_tags cs)"
  by pat_completeness auto
termination
proof (relation "measure length")
  show "wf (measure length)" by simp
next
  fix c :: char and cs :: string
  have "length (tl (dropWhile (\<lambda>x. x \<noteq> CHR ''>'') cs)) \<le> length cs"
    using length_dropWhile_le [of "\<lambda>x. x \<noteq> CHR ''>''" cs] by simp
  then show "(tl (dropWhile (\<lambda>x. x \<noteq> CHR ''>'') cs), c # cs) \<in> measure length"
    by simp
next
  fix c :: char and cs :: string
  show "(cs, c # cs) \<in> measure length" by simp
qed

subsection \<open>Objects decoded from JSON\<close>

text \<open>
  The monitor looks at a decoded JSON value in five ways only: \<^verbatim>\<open>is None\<close>,
  \<^verbatim>\<open>is True\<close>, \<^verbatim>\<open>isinstance(_, dict)\<close> with \<^verbatim>\<open>.get\<close>, truthiness and \<^verbatim>\<open>str()\<close>.
  A dictionary carries its entries and the text \<^verbatim>\<open>str()\<close> gives for it; \<open>POther\<close> is
  any other object (a float, a list), known through the text \<^verbatim>\<open>str()\<close> gives for it.
\<close>

datatype pyval =
  PNone | PBool bool | PInt int | PStr string
  | PDict "(string \<times> pyval) list" string | POther string

fun nat_digits :: "nat \<Rightarrow> string" where
  "nat_digits n =
     (if n < 10 then [''0123456789'' ! n]
      else nat_digits (n div 10) @ [''0123456789'' ! (n mod 10)])"

declare nat_digits.simps [simp del]

definition py_str_int :: "int \<Rightarrow> string" where
  "py_str_int n = (if n < 0 then CHR ''-'' # nat_digits (nat (- n)) else nat_digits (nat n))"

fun py_str :: "pyval \<Rightarrow> string" where
  "py_str PNone = ''None''"
| "py_str (PBool b) = (if b then ''True'' else ''False'')"
| "py_str (PInt n) = py_str_int n"
| "py_str (PStr s) = s"
| "py_str (PDict kvs t) = t"
| "py_str (POther t) = t"

text \<open>
  Truthiness: \<^verbatim>\<open>None\<close>, \<^verbatim>\<open>False\<close>, zero, the empty text and the empty containers are
  false. Among the other objects JSON decodes to, the false ones print as \<^verbatim>\<open>0.0\<close>,
  \<^verbatim>\<open>-0.0\<close> and \<^verbatim>\<open>[]\<close>.
\<close>

fun py_truthy :: "pyval \<Rightarrow> bool" where
  "py_truthy PNone = False"
| "py_truthy (PBool b) = b"
| "py_truthy (PInt n) = (n \<noteq> 0)"
| "py_truthy (PStr s) = (s \<noteq> [])"
| "py_truthy (PDict kvs t) = (kvs \<noteq> [])"
| "py_truthy (POther t) = (t \<noteq> ''0.0'' \<and> t \<noteq> ''-0.0'' \<and> t \<noteq> ''[]'')"

definition dict_get :: "(string \<times> pyval) list \<Rightarrow> string \<Rightarrow> pyval \<Rightarrow> pyval" where
  "dict_get kvs k d = (case map_of kvs k of Some v \<Rightarrow> v | None \<Rightarrow> d)"

text \<open>\<^verbatim>\<open>data.get(k, d)\<close> on whatever \<^verbatim>\<open>resp.json()\<close> returned: only a dictionary has it.\<close>

fun py_get :: "pyval \<Rightarrow> string \<Rightarrow> pyval \<Rightarrow> py_error + pyval" where
  "py_get (PDict kvs t) k d = Inr (dict_get kvs k d)"
| "py_get v k d = Inl AttributeError"

section \<open>The price file and its filters\<close>

text \<open>
  A cell of the data frame is missing (what \<^verbatim>\<open>pd.isna\<close> accepts), a text, or a number
  known through the text \<^verbatim>\<open>str()\<close> gives for it. The quantity column is numeric with
  gaps; the other columns hold what the file holds.
\<close>

datatype cell = NA | Str string | Num string

record source_row =
  col_pcf_id :: cell
  col_ingram_part :: cell
  col_description :: cell
  col_vendor_name :: cell
  col_vendor_part :: cell
  col_customer_price :: cell
  col_available_qty :: "int option"
  col_creation_reason :: cell
  col_category :: cell
  col_subcategory :: cell

definition fillna0 :: "int option \<Rightarrow> int" where
  "fillna0 q = (case q of None \<Rightarrow> 0 | Some n \<Rightarrow> n)"

text \<open>
  What \<^verbatim>\<open>Series.str.contains(pat, case=False, na=False)\<close> answers for one value, for
  a pattern of plain letters: a search for the pattern anywhere in the text, letters
  compared without case; a value that is not a text counts as \<^verbatim>\<open>False\<close>.
\<close>

fun search_ci :: "string \<Rightarrow> string \<Rightarrow> bool" where
  "search_ci pat [] = (pat = [])"
| "search_ci pat (c # cs) =
     (py_lower (take (length pat) (c # cs)) = py_lower pat \<or> search_ci pat cs)"

fun str_contains_value :: "string \<Rightarrow> cell \<Rightarrow> bool" where
  "str_contains_value pat (Str s) = search_ci pat s"
| "str_contains_value pat NA = False"
| "str_contains_value pat (Num t) = False"

text \<open>
  Before any of its methods runs, the accessor \<^verbatim>\<open>.str\<close> looks at the column and raises
  \<^verbatim>\<open>AttributeError\<close> unless the column may hold texts. The dtype comes from the file
  as a whole: a column read without a single text is numeric (\<^verbatim>\<open>float64\<close> when it has
  gaps) and is refused, whichever rows were selected from it; only a frame without rows
  keeps the dtype \<^verbatim>\<open>object\<close>. In a column of dtype \<^verbatim>\<open>object\<close> the selected values
  that are not missing decide: with a text among them the accessor is granted, with
  numbers alone it is refused, with nothing at all it is granted.
\<close>

fun is_text :: "cell \<Rightarrow> bool" where
  "is_text (Str s) = True"
| "is_text NA = False"
| "is_text (Num t) = False"

fun is_number :: "cell \<Rightarrow> bool" where
  "is_number (Num t) = True"
| "is_number NA = False"
| "is_number (Str s) = False"

definition object_dtype :: "cell list \<Rightarrow> bool" where
  "object_dtype column = (if column = [] then True else list_ex is_text column)"

definition str_accessor :: "cell list \<Rightarrow> cell list \<Rightarrow> py_error + cell list" where
  "str_accessor column selected =
     (if \<not> object_dtype column then Inl AttributeError
      else if list_ex is_text selected then Inr selected
      else if list_ex is_number selected then Inl AttributeError
      else Inr selected)"

text \<open>
  \<^verbatim>\<open>selected.str.contains(pat, case=False, na=False)\<close>, where \<open>selected\<close> is taken from
  \<open>column\<close>: the accessor first, then the answer for each value.
\<close>

definition series_str_contains ::
  "string \<Rightarrow> cell list \<Rightarrow> cell list \<Rightarrow> py_error + bool list" where
  "series_str_contains pat column selected =
     (case str_accessor column selected of
        Inl e \<Rightarrow> Inl e
      | Inr vals \<Rightarrow> Inr (map (str_contains_value pat) vals))"

text \<open>The nested function \<^verbatim>\<open>is_valid_pcf_id\<close> of \<^verbatim>\<open>apply_xlsx_filters\<close>.\<close>

fun cell_text :: "cell \<Rightarrow> string option" where
  "cell_text NA = None"
| "cell_text (Str s) = Some s"
| "cell_text (Num t) = Some t"

definition sentinels :: "string list" where
  "sentinels = [''sin id'', ''n/a'', ''na'', ''-'', ''none'']"

definition is_valid_pcf_id :: "cell \<Rightarrow> py_error + bool" where
  "is_valid_pcf_id val =
     (case cell_text val of
        None \<Rightarrow> Inr False
      | Some t \<Rightarrow>
          if py_strip t = [] then Inr False
          else
            (let s = py_lower (py_strip t)
             in if s \<in> set sentinels then Inr False
                else (case int_float s of
                        Inr n \<Rightarrow> Inr True
                      | Inl e \<Rightarrow>
                          if e = ValueError \<or> e = TypeError then Inr False else Inl e)))"

text \<open>
  \<^verbatim>\<open>Series.apply\<close> calls the function on each value in turn; the first exception ends it.
\<close>

fun series_apply :: "('a \<Rightarrow> py_error + 'b) \<Rightarrow> 'a list \<Rightarrow> py_error + 'b list" where
  "series_apply f [] = Inr []"
| "series_apply f (x # xs) =
     (case f x of
        Inl e \<Rightarrow> Inl e
      | Inr y \<Rightarrow> (case series_apply f xs of Inl e \<Rightarrow> Inl e | Inr ys \<Rightarrow> Inr (y # ys)))"

definition select_rows :: "'a list \<Rightarrow> bool list \<Rightarrow> 'a list" where
  "select_rows df keep = map fst (filter snd (zip df keep))"

text \<open>The first filter of \<^verbatim>\<open>apply_xlsx_filters\<close> and the frame of the rows it rejects.\<close>

definition stock_positive :: "source_row \<Rightarrow> bool" where
  "stock_positive r = (0 < fillna0 (col_available_qty r))"

definition has_stock_of :: "source_row list \<Rightarrow> source_row list" where
  "has_stock_of df = filter stock_positive df"

definition sin_stock_df_of :: "source_row list \<Rightarrow> source_row list" where
  "sin_stock_df_of df = filter (\<lambda>r. fillna0 (col_available_qty r) \<le> 0) df"

record xlsx_stats =
  total :: nat
  sin_stock_ingram :: int
  has_stock :: "source_row list"
  sin_stock_df :: "source_row list"
  clearance :: nat
  clearance_products :: "source_row list"
  eligible_xlsx :: "source_row list"
  has_pcf_id :: "source_row list"
  no_pcf_id :: "source_row list"

text \<open>
  \<^verbatim>\<open>apply_xlsx_filters\<close>, statement by statement. The clearance test is a call of
  \<^verbatim>\<open>.str.contains\<close> on the creation reasons of the stocked rows and can raise; the
  identifier check is applied to the rows that remain and can raise as well.
\<close>

definition apply_xlsx_filters :: "source_row list \<Rightarrow> py_error + xlsx_stats" where
  "apply_xlsx_filters df =
     (case series_str_contains ''CLEARANCE'' (map col_creation_reason df)
             (map col_creation_reason (has_stock_of df)) of
        Inl e \<Rightarrow> Inl e
      | Inr is_clearance \<Rightarrow>
          (case series_apply is_valid_pcf_id
                  (map col_pcf_id (select_rows (has_stock_of df) (map Not is_clearance))) of
             Inl e \<Rightarrow> Inl e
           | Inr mask_valid_id \<Rightarrow>
               Inr \<lparr> total = length df,
                     sin_stock_ingram = int (length df) - int (length (has_stock_of df)),
                     has_stock = has_stock_of df,
                     sin_stock_df = sin_stock_df_of df,
                     clearance = length (select_rows (has_stock_of df) is_clearance),
                     clearance_products = select_rows (has_stock_of df) is_clearance,
                     eligible_xlsx = select_rows (has_stock_of df) (map Not is_clearance),
                     has_pcf_id =
                       select_rows (select_rows (has_stock_of df) (map Not is_clearance))
                         mask_valid_id,
                     no_pcf_id =
                       select_rows (select_rows (has_stock_of df) (map Not is_clearance))
                         (map Not mask_valid_id) \<rparr>))"

text \<open>
  The rows the two selections by \<^verbatim>\<open>is_clearance\<close> keep once the accessor is granted,
  written as filters; the lemmas about the function are stated with them.
\<close>

definition is_clearance :: "source_row \<Rightarrow> bool" where
  "is_clearance r = str_contains_value ''CLEARANCE'' (col_creation_reason r)"

definition clearance_products_of :: "source_row list \<Rightarrow> source_row list" where
  "clearance_products_of df = filter is_clearance (has_stock_of df)"

definition eligible_xlsx_of :: "source_row list \<Rightarrow> source_row list" where
  "eligible_xlsx_of df = filter (\<lambda>r. \<not> is_clearance r) (has_stock_of df)"

section \<open>The catalogue lookup\<close>

definition is_description_empty :: "pyval \<Rightarrow> bool" where
  "is_description_empty description =
     (if \<not> py_truthy description then True
      else
        (let s = py_strip (py_str description)
         in if s = [] then True
            else length (py_strip (re_sub_tags s)) < 20))"

text \<open>
  \<^verbatim>\<open>parse_stock_aproximado\<close>. The text it hands to \<^verbatim>\<open>int\<close> is the entry
  \<^verbatim>\<open>aproximado\<close> of a dictionary (\<^verbatim>\<open>"0"\<close> when there is none) or the value itself,
  through \<^verbatim>\<open>str()\<close> and \<^verbatim>\<open>strip()\<close>.
\<close>

definition aprox_text :: "pyval \<Rightarrow> string" where
  "aprox_text stock_data =
     py_strip
       (case stock_data of
          PDict kvs t \<Rightarrow> py_str (dict_get kvs ''aproximado'' (PStr ''0''))
        | _ \<Rightarrow> py_str stock_data)"

text \<open>\<^verbatim>\<open>try: return int(x)\<close> \<^verbatim>\<open>except ValueError: return 0\<close>\<close>

definition int_or_zero :: "string \<Rightarrow> py_error + int" where
  "int_or_zero x =
     (case py_int x of Inr n \<Rightarrow> Inr n | Inl e \<Rightarrow> if e = ValueError then Inr 0 else Inl e)"

definition parse_stock_aproximado :: "pyval \<Rightarrow> py_error + int" where
  "parse_stock_aproximado stock_data =
     (if stock_data = PNone then Inr 0
      else if startswith (aprox_text stock_data) ''+''
      then int_or_zero (drop 1 (aprox_text stock_data))
      else int_or_zero (aprox_text stock_data))"

text \<open>
  The result of one lookup: the entries of the dictionary \<^verbatim>\<open>check_product_api\<close> returns
  that the classifier reads. \<^verbatim>\<open>None\<close> is \<open>PNone\<close> for the flag and \<open>None\<close> for the two
  others. The entries that are only displayed (raw stock text, name, prices, error
  message) are left out.
\<close>

record lookup =
  api_status :: string
  mayorista :: pyval
  stock_pcf :: "int option"
  ficha_vacia :: "bool option"

definition error_result :: lookup where
  "error_result =
     \<lparr> api_status = ''error'', mayorista = PNone, stock_pcf = None, ficha_vacia = None \<rparr>"

definition not_found_result :: lookup where
  "not_found_result =
     \<lparr> api_status = ''not_found'', mayorista = PBool False, stock_pcf = Some 0,
       ficha_vacia = Some True \<rparr>"

text \<open>
  What \<^verbatim>\<open>session.get\<close> does for one request: it returns a response, with a status code
  and a body that \<^verbatim>\<open>resp.json()\<close> decodes or fails on, or it raises. \<^verbatim>\<open>resp.ok\<close> is
  false exactly for the codes 400 to 599. The pause before the request and the wait on a
  \<^verbatim>\<open>Retry-After\<close> header take time and change no result.
\<close>

datatype http_outcome = Response nat "py_error + pyval" | Raised py_error

definition resp_ok :: "nat \<Rightarrow> bool" where
  "resp_ok status = (\<not> (400 \<le> status \<and> status < 600))"

definition ok_result :: "pyval \<Rightarrow> py_error + lookup" where
  "ok_result data =
     (case py_get data ''mayorista'' (PBool False) of
        Inl e \<Rightarrow> Inl e
      | Inr m \<Rightarrow>
          (case py_get data ''stock'' (PDict [] ''{}'') of
             Inl e \<Rightarrow> Inl e
           | Inr stock_data \<Rightarrow>
               (case parse_stock_aproximado stock_data of
                  Inl e \<Rightarrow> Inl e
                | Inr stock_aprox \<Rightarrow>
                    (case py_get data ''descripcion'' (PStr []) of
                       Inl e \<Rightarrow> Inl e
                     | Inr description_pcf \<Rightarrow>
                         Inr \<lparr> api_status = ''ok'', mayorista = m,
                               stock_pcf = Some stock_aprox,
                               ficha_vacia = Some (is_description_empty description_pcf) \<rparr>))))"

text \<open>\<^verbatim>\<open>except requests.RequestException\<close>: any other exception leaves the function.\<close>

definition except_request :: "py_error + lookup \<Rightarrow> py_error + lookup" where
  "except_request r =
     (case r of
        Inl e \<Rightarrow> if e = RequestException then Inr error_result else Inl e
      | Inr x \<Rightarrow> Inr x)"

definition check_product_api :: "http_outcome \<Rightarrow> py_error + lookup" where
  "check_product_api outcome =
     except_request
       (case outcome of
          Raised e \<Rightarrow> Inl e
        | Response status body \<Rightarrow>
            if resp_ok status then (case body of Inl e \<Rightarrow> Inl e | Inr data \<Rightarrow> ok_result data)
            else if status = 404 then Inr not_found_result
            else Inr error_result)"

subsection \<open>The batch\<close>

text \<open>
  An entry of the list \<^verbatim>\<open>check_products_batch\<close> returns: the lookup result together
  with the identifier and the row it was asked for.
\<close>

record candidate = lookup +
  pcf_id :: int
  row :: source_row

definition make_result :: "int \<Rightarrow> source_row \<Rightarrow> lookup \<Rightarrow> candidate" where
  "make_result pid r api_result =
     \<lparr> api_status = api_status api_result, mayorista = mayorista api_result,
       stock_pcf = stock_pcf api_result, ficha_vacia = ficha_vacia api_result,
       pcf_id = pid, row = r \<rparr>"

text \<open>
  \<^verbatim>\<open>int(float(pcf_id))\<close> on the cell itself. For a text this is \<^verbatim>\<open>int(float(s))\<close>. For a
  number \<^verbatim>\<open>float\<close> returns its value, which is also what \<^verbatim>\<open>float\<close> reads back from its
  \<^verbatim>\<open>str()\<close>. A missing cell raises (\<^verbatim>\<open>ValueError\<close> for NaN, \<^verbatim>\<open>TypeError\<close> for
  \<^verbatim>\<open>None\<close>; the loop treats both alike).
\<close>

fun cell_int_float :: "cell \<Rightarrow> py_error + int" where
  "cell_int_float NA = Inl ValueError"
| "cell_int_float (Str s) = int_float s"
| "cell_int_float (Num t) = int_float t"

text \<open>The first loop: a row whose conversion raises one of the two caught errors is skipped.\<close>

fun batch_tasks :: "source_row list \<Rightarrow> py_error + (int \<times> source_row) list" where
  "batch_tasks [] = Inr []"
| "batch_tasks (r # rs) =
     (case cell_int_float (col_pcf_id r) of
        Inl e \<Rightarrow> if e = ValueError \<or> e = TypeError then batch_tasks rs else Inl e
      | Inr pcf_id_int \<Rightarrow>
          (case batch_tasks rs of
             Inl e \<Rightarrow> Inl e
           | Inr tasks \<Rightarrow> Inr ((pcf_id_int, r) # tasks)))"

text \<open>\<^verbatim>\<open>future.result()\<close> under \<^verbatim>\<open>except Exception\<close>.\<close>

definition future_result :: "http_outcome \<Rightarrow> lookup" where
  "future_result outcome =
     (case check_product_api outcome of Inr api_result \<Rightarrow> api_result | Inl e \<Rightarrow> error_result)"

text \<open>
  The pool: \<open>transport i\<close> is what the network does for the task submitted at position
  \<open>i\<close>, and \<open>completion\<close> is the order in which \<^verbatim>\<open>as_completed\<close> hands the futures back,
  a permutation of the positions.
\<close>

definition check_products_batch ::
  "(nat \<Rightarrow> http_outcome) \<Rightarrow> nat list \<Rightarrow> source_row list \<Rightarrow> py_error + candidate list" where
  "check_products_batch transport completion df_with_ids =
     (case batch_tasks df_with_ids of
        Inl e \<Rightarrow> Inl e
      | Inr tasks \<Rightarrow>
          Inr (map (\<lambda>i. make_result (fst (tasks ! i)) (snd (tasks ! i))
                           (future_result (transport i)))
                 completion))"

section \<open>The classifier\<close>

text \<open>
  \<^verbatim>\<open>need_creation\<close> receives both looked-up entries and rows that never had an
  identifier, the latter as \<open>Inr\<close>.
\<close>

record classification =
  publish_ready :: "candidate list"
  missing_ficha :: "candidate list"
  need_creation :: "(candidate + source_row) list"
  already_mayorista :: "candidate list"
  has_pcf_stock :: "candidate list"
  api_errors :: "candidate list"

definition empty_classification :: classification where
  "empty_classification =
     \<lparr> publish_ready = [], missing_ficha = [], need_creation = [], already_mayorista = [],
       has_pcf_stock = [], api_errors = [] \<rparr>"

text \<open>The body of the loop over \<^verbatim>\<open>api_results\<close>.\<close>

definition classify_item :: "classification \<Rightarrow> candidate \<Rightarrow> classification" where
  "classify_item c item =
     (if api_status item = ''error'' then c\<lparr>api_errors := api_errors c @ [item]\<rparr>
      else if api_status item = ''not_found''
      then c\<lparr>need_creation := need_creation c @ [Inl item]\<rparr>
      else if mayorista item = PBool True
      then c\<lparr>already_mayorista := already_mayorista c @ [item]\<rparr>
      else if (case stock_pcf item of None \<Rightarrow> False | Some n \<Rightarrow> 0 < n)
      then c\<lparr>has_pcf_stock := has_pcf_stock c @ [item]\<rparr>
      else if ficha_vacia item = Some True
      then c\<lparr>missing_ficha := missing_ficha c @ [item]\<rparr>
      else c\<lparr>publish_ready := publish_ready c @ [item]\<rparr>)"

definition classify_products :: "candidate list \<Rightarrow> source_row list \<Rightarrow> classification" where
  "classify_products api_results df_no_pcf_id =
     (let c = foldl classify_item empty_classification api_results
      in c\<lparr>need_creation := need_creation c @ map Inr df_no_pcf_id\<rparr>)"

section \<open>Obtaining the data\<close>

text \<open>
  Step 1 of \<^verbatim>\<open>main\<close>. The arguments are the source chosen on the command line and what
  the three readers do: \<^verbatim>\<open>read_google_sheet\<close> returns the frame or raises (it prints and
  raises again), \<^verbatim>\<open>find_latest_price_file\<close> returns a path or \<^verbatim>\<open>None\<close>, and
  \<^verbatim>\<open>read_price_file\<close>, that is \<^verbatim>\<open>pd.read_excel\<close>, returns the frame or raises. The run
  goes on with the frame, or writes the empty dashboard under a title and returns, or
  ends on an exception nobody handles.
\<close>

datatype source = GSheet | LocalFile

datatype 'df acquired = Loaded 'df | EmptyDashboard string | Unhandled py_error

definition main_obtain_data ::
  "source \<Rightarrow> py_error + 'df \<Rightarrow> string option \<Rightarrow> (string \<Rightarrow> py_error + 'df) \<Rightarrow> 'df acquired" where
  "main_obtain_data src read_google_sheet find_latest_price_file read_price_file =
     (case src of
        GSheet \<Rightarrow>
          (case read_google_sheet of
             Inr df \<Rightarrow> Loaded df
           | Inl e \<Rightarrow> EmptyDashboard ''Error al leer Google Sheet'')
      | LocalFile \<Rightarrow>
          (case find_latest_price_file of
             None \<Rightarrow> EmptyDashboard ''No encontrado''
           | Some price_file \<Rightarrow>
               (case read_price_file price_file of
                  Inr df \<Rightarrow> Loaded df
                | Inl e \<Rightarrow> Unhandled e)))"

section \<open>The specification's wording\<close>

text \<open>
  Three definitions that follow the specification rather than the program, to compare
  the program with.
\<close>

datatype bucket =
  PublishReady | MissingDescription | NeedsCreation | AlreadyPublished | HasOwnStock
  | LookupErrors

text \<open>
  The classifier's decision order: error, not found, visibility flag true, known stock
  above zero, then the description.
\<close>

definition spec_bucket :: "candidate \<Rightarrow> bucket" where
  "spec_bucket cand =
     (if api_status cand = ''error'' then LookupErrors
      else if api_status cand = ''not_found'' then NeedsCreation
      else if mayorista cand = PBool True then AlreadyPublished
      else if (case stock_pcf cand of None \<Rightarrow> False | Some n \<Rightarrow> 0 < n) then HasOwnStock
      else if ficha_vacia cand = Some True then MissingDescription
      else PublishReady)"

text \<open>
  A valid identifier: present; not blank once trimmed; not a sentinel token, whatever
  its case; and \<^verbatim>\<open>int(float(_))\<close> of the trimmed text goes through.
\<close>

definition spec_valid_identifier :: "cell \<Rightarrow> bool" where
  "spec_valid_identifier val =
     (case cell_text val of
        None \<Rightarrow> False
      | Some t \<Rightarrow>
          py_strip t \<noteq> [] \<and> py_lower (py_strip t) \<notin> set sentinels
          \<and> (case int_float (py_strip t) of Inr n \<Rightarrow> True | Inl e \<Rightarrow> False))"

text \<open>
  A substantive description: once the markup is removed, at least 20 characters remain.
\<close>

definition spec_substantive :: "string \<Rightarrow> bool" where
  "spec_substantive description = (20 \<le> length (re_sub_tags description))"

section \<open>Sample data\<close>

text \<open>A row and a looked-up entry with the columns that play no role filled in.\<close>

definition sample_row :: "cell \<Rightarrow> int option \<Rightarrow> cell \<Rightarrow> source_row" where
  "sample_row ident qty reason =
     \<lparr> col_pcf_id = ident, col_ingram_part = Str ''CL0001'',
       col_description = Str ''NOTEBOOK 15.6'', col_vendor_name = Str ''HP'',
       col_vendor_part = Str ''7K9A1'', col_customer_price = Num ''349990.0'',
       col_available_qty = qty, col_creation_reason = reason,
       col_category = Str ''Computers'', col_subcategory = NA \<rparr>"

definition sample_candidate ::
  "string \<Rightarrow> pyval \<Rightarrow> int option \<Rightarrow> bool option \<Rightarrow> candidate" where
  "sample_candidate status flag stock ficha =
     \<lparr> api_status = status, mayorista = flag, stock_pcf = stock, ficha_vacia = ficha,
       pcf_id = 123, row = sample_row (Str ''123'') (Some 5) NA \<rparr>"

section \<open>Evaluating the built-ins\<close>

lemmas char_defs =
  py_isspace_def num_space_def is_digit_def py_lower_def py_lower_char_def char_of_eq_iff

lemmas str_defs =
  py_strip_def strip_with_def startswith_def drop_underscores_def digits_val_def

lemma int_float_inf: "int_float ''inf'' = Inl OverflowError"
  by (simp add: int_float_def py_float_def parse_unsigned_def char_defs str_defs)

section \<open>The classifier is a first-match partition\<close>

lemma api_errors_foldl:
  "api_errors (foldl classify_item c xs)
   = api_errors c @ filter (\<lambda>i. spec_bucket i = LookupErrors) xs"
  by (induction xs arbitrary: c) (simp_all add: classify_item_def spec_bucket_def)

lemma need_creation_foldl:
  "need_creation (foldl classify_item c xs)
   = need_creation c @ map Inl (filter (\<lambda>i. spec_bucket i = NeedsCreation) xs)"
  by (induction xs arbitrary: c) (simp_all add: classify_item_def spec_bucket_def)

lemma already_mayorista_foldl:
  "already_mayorista (foldl classify_item c xs)
   = already_mayorista c @ filter (\<lambda>i. spec_bucket i = AlreadyPublished) xs"
  by (induction xs arbitrary: c) (simp_all add: classify_item_def spec_bucket_def)

lemma has_pcf_stock_foldl:
  "has_pcf_stock (foldl classify_item c xs)
   = has_pcf_stock c @ filter (\<lambda>i. spec_bucket i = HasOwnStock) xs"
  by (induction xs arbitrary: c) (simp_all add: classify_item_def spec_bucket_def)

lemma missing_ficha_foldl:
  "missing_ficha (foldl classify_item c xs)
   = missing_ficha c @ filter (\<lambda>i. spec_bucket i = MissingDescription) xs"
  by (induction xs arbitrary: c) (simp_all add: classify_item_def spec_bucket_def)

lemma publish_ready_foldl:
  "publish_ready (foldl classify_item c xs)
   = publish_ready c @ filter (\<lambda>i. spec_bucket i = PublishReady) xs"
  by (induction xs arbitrary: c) (simp_all add: classify_item_def spec_bucket_def)

lemma bucket_lengths:
  "length (filter (\<lambda>i. f i = LookupErrors) xs) + length (filter (\<lambda>i. f i = NeedsCreation) xs)
   + length (filter (\<lambda>i. f i = AlreadyPublished) xs)
   + length (filter (\<lambda>i. f i = HasOwnStock) xs)
   + length (filter (\<lambda>i. f i = MissingDescription) xs)
   + length (filter (\<lambda>i. f i = PublishReady) xs)
   = length xs"
proof (induction xs)
  case Nil
  show ?case by simp
next
  case (Cons x xs)
  then show ?case by (cases "f x") simp_all
qed

lemma classify_api_errors:
  "api_errors (classify_products xs rows) = filter (\<lambda>i. spec_bucket i = LookupErrors) xs"
  by (simp add: classify_products_def Let_def api_errors_foldl empty_classification_def)

lemma classify_need_creation:
  "need_creation (classify_products xs rows)
   = map Inl (filter (\<lambda>i. spec_bucket i = NeedsCreation) xs) @ map Inr rows"
  by (simp add: classify_products_def Let_def need_creation_foldl empty_classification_def)

lemma classify_already_mayorista:
  "already_mayorista (classify_products xs rows)
   = filter (\<lambda>i. spec_bucket i = AlreadyPublished) xs"
  by (simp add: classify_products_def Let_def already_mayorista_foldl empty_classification_def)

lemma classify_has_pcf_stock:
  "has_pcf_stock (classify_products xs rows) = filter (\<lambda>i. spec_bucket i = HasOwnStock) xs"
  by (simp add: classify_products_def Let_def has_pcf_stock_foldl empty_classification_def)

lemma classify_missing_ficha:
  "missing_ficha (classify_products xs rows)
   = filter (\<lambda>i. spec_bucket i = MissingDescription) xs"
  by (simp add: classify_products_def Let_def missing_ficha_foldl empty_classification_def)

lemma classify_publish_ready:
  "publish_ready (classify_products xs rows) = filter (\<lambda>i. spec_bucket i = PublishReady) xs"
  by (simp add: classify_products_def Let_def publish_ready_foldl empty_classification_def)

lemmas classify_buckets =
  classify_api_errors classify_need_creation classify_already_mayorista
  classify_has_pcf_stock classify_missing_ficha classify_publish_ready

lemma classify_total:
  "length (api_errors (classify_products xs rows))
   + length (need_creation (classify_products xs rows))
   + length (already_mayorista (classify_products xs rows))
   + length (has_pcf_stock (classify_products xs rows))
   + length (missing_ficha (classify_products xs rows))
   + length (publish_ready (classify_products xs rows))
   = length xs + length rows"
  using bucket_lengths [of spec_bucket xs] by (simp add: classify_buckets)

text \<open>
  Claim C1. The loop of \<^verbatim>\<open>classify_products\<close> puts every looked-up entry into exactly
  one bucket, the one the ordered tests of the specification name: each bucket is the
  input filtered by that decision, in input order, and \<^verbatim>\<open>need_creation\<close> ends with the
  rows that had no identifier; so the bucket sizes add up to the number of entries and
  rows. In particular an entry whose status is \<^verbatim>\<open>error\<close> is in \<^verbatim>\<open>api_errors\<close> whatever
  its other fields hold, and a found entry with the flag true and a positive stock is in
  \<^verbatim>\<open>already_mayorista\<close>.
\<close>

theorem classify_products_first_match:
  "api_errors (classify_products xs rows) = filter (\<lambda>i. spec_bucket i = LookupErrors) xs
   \<and> need_creation (classify_products xs rows)
       = map Inl (filter (\<lambda>i. spec_bucket i = NeedsCreation) xs) @ map Inr rows
   \<and> already_mayorista (classify_products xs rows)
       = filter (\<lambda>i. spec_bucket i = AlreadyPublished) xs
   \<and> has_pcf_stock (classify_products xs rows) = filter (\<lambda>i. spec_bucket i = HasOwnStock) xs
   \<and> missing_ficha (classify_products xs rows)
       = filter (\<lambda>i. spec_bucket i = MissingDescription) xs
   \<and> publish_ready (classify_products xs rows) = filter (\<lambda>i. spec_bucket i = PublishReady) xs
   \<and> length (api_errors (classify_products xs rows))
       + length (need_creation (classify_products xs rows))
       + length (already_mayorista (classify_products xs rows))
       + length (has_pcf_stock (classify_products xs rows))
       + length (missing_ficha (classify_products xs rows))
       + length (publish_ready (classify_products xs rows))
       = length xs + length rows
   \<and> (\<forall>c \<in> set xs. api_status c = ''error''
         \<longrightarrow> c \<in> set (api_errors (classify_products xs rows)))
   \<and> (\<forall>c \<in> set xs. \<forall>n. api_status c \<noteq> ''error'' \<and> api_status c \<noteq> ''not_found''
           \<and> mayorista c = PBool True \<and> stock_pcf c = Some n \<and> 0 < n
         \<longrightarrow> c \<in> set (already_mayorista (classify_products xs rows)))"
proof -
  have err: "\<forall>c \<in> set xs. api_status c = ''error''
               \<longrightarrow> c \<in> set (api_errors (classify_products xs rows))"
    by (simp add: classify_api_errors spec_bucket_def)
  have vis: "\<forall>c \<in> set xs. \<forall>n. api_status c \<noteq> ''error'' \<and> api_status c \<noteq> ''not_found''
                 \<and> mayorista c = PBool True \<and> stock_pcf c = Some n \<and> 0 < n
               \<longrightarrow> c \<in> set (already_mayorista (classify_products xs rows))"
    by (simp add: classify_already_mayorista spec_bucket_def)
  show ?thesis
    using classify_buckets [of xs rows] classify_total [of xs rows] err vis by blast
qed

theorem classify_products_first_match_witness:
  "api_errors
     (classify_products
        [sample_candidate ''error'' (PBool True) (Some 3) (Some False),
         sample_candidate ''ok'' (PBool True) (Some 3) (Some False)] [])
   = [sample_candidate ''error'' (PBool True) (Some 3) (Some False)]
   \<and> already_mayorista
       (classify_products
          [sample_candidate ''error'' (PBool True) (Some 3) (Some False),
           sample_candidate ''ok'' (PBool True) (Some 3) (Some False)] [])
     = [sample_candidate ''ok'' (PBool True) (Some 3) (Some False)]"
  using classify_products_first_match
    [of "[sample_candidate ''error'' (PBool True) (Some 3) (Some False),
          sample_candidate ''ok'' (PBool True) (Some 3) (Some False)]" "[]"]
  by (simp add: spec_bucket_def sample_candidate_def)

section \<open>The identifier check can raise\<close>

text \<open>
  Claim C5. The check is meant to answer for every cell, but \<^verbatim>\<open>int(float(s))\<close> raises
  \<^verbatim>\<open>OverflowError\<close> on an infinity, and the handler names \<^verbatim>\<open>ValueError\<close> and
  \<^verbatim>\<open>TypeError\<close> only: on the text \<^verbatim>\<open>inf\<close>, and on a number that prints as \<^verbatim>\<open>inf\<close>, the
  exception leaves the function.
\<close>

theorem is_valid_pcf_id_overflow:
  "is_valid_pcf_id (Str ''inf'') = Inl OverflowError
   \<and> is_valid_pcf_id (Num ''inf'') = Inl OverflowError"
  by (simp add: is_valid_pcf_id_def sentinels_def int_float_inf char_defs str_defs)

section \<open>Obtaining the data: one failure is not handled\<close>

lemma main_obtain_data_gsheet_failure:
  "main_obtain_data GSheet (Inl e) found reader = EmptyDashboard ''Error al leer Google Sheet''"
  by (simp add: main_obtain_data_def)

lemma main_obtain_data_no_local_file:
  "main_obtain_data LocalFile sheet None reader = EmptyDashboard ''No encontrado''"
  by (simp add: main_obtain_data_def)

text \<open>
  Claim C6. A sheet that cannot be read and a directory without price file both end in
  the empty dashboard, as the two lemmas above say. A price file that is found but that
  \<^verbatim>\<open>pd.read_excel\<close> cannot parse does not: \<^verbatim>\<open>read_price_file\<close> is called outside
  any handler, so the exception ends the run and no dashboard is written.
\<close>

theorem main_obtain_data_unparseable_local_file:
  "main_obtain_data LocalFile sheet (Some price_file) (\<lambda>path. Inl e) = Unhandled e"
  by (simp add: main_obtain_data_def)

section \<open>The filters of the price file\<close>

lemma floor_log2_123: "floor_log2 123 = 6"
  by (simp add: floor_log2_def pow2_def bit_length.simps)

lemma round_double_123: "round_double 123 = Fin 123"
  by (simp add: round_double_def floor_log2_123 round_half_even_def pow2_def)

lemma py_float_123: "py_float ''123'' = Inr (Fin 123)"
  by (simp add: py_float_def parse_unsigned_def parse_decimal_def parse_exponent_def
        pow10_def round_double_123 char_defs str_defs)

lemma py_float_123_0: "py_float ''123.0'' = Inr (Fin 123)"
  by (simp add: py_float_def parse_unsigned_def parse_decimal_def parse_exponent_def
        pow10_def round_double_123 char_defs str_defs)

lemma int_float_123: "int_float ''123'' = Inr 123" "int_float ''123.0'' = Inr 123"
  by (simp_all add: int_float_def py_float_123 py_float_123_0)

lemma is_valid_123: "is_valid_pcf_id (Str ''123'') = Inr True"
  by (simp add: is_valid_pcf_id_def sentinels_def int_float_123 char_defs str_defs)

lemma is_valid_inf: "is_valid_pcf_id (Str ''inf'') = Inl OverflowError"
  by (simp add: is_valid_pcf_id_def sentinels_def int_float_inf char_defs str_defs)

lemma series_apply_length: "series_apply f xs = Inr ys \<Longrightarrow> length ys = length xs"
  by (induction xs arbitrary: ys) (auto split: sum.splits)

lemma series_apply_Inr_iff:
  "(\<exists>ys. series_apply f xs = Inr ys) \<longleftrightarrow> (\<forall>x \<in> set xs. \<exists>y. f x = Inr y)"
proof (induction xs)
  case Nil
  show ?case by simp
next
  case (Cons x xs)
  show ?case
  proof (cases "f x")
    case (Inl e)
    then show ?thesis by auto
  next
    case (Inr y)
    show ?thesis
    proof (cases "series_apply f xs")
      case (Inl e)
      with Inr Cons show ?thesis by auto
    next
      case (Inr ys)
      with \<open>f x = Inr y\<close> Cons show ?thesis by auto
    qed
  qed
qed

lemma select_rows_mset:
  "length keep = length xs \<Longrightarrow>
   mset (select_rows xs keep) + mset (select_rows xs (map Not keep)) = mset xs"
  unfolding select_rows_def
  by (induction xs keep rule: list_induct2') auto

lemma select_rows_set:
  "length keep = length xs \<Longrightarrow>
   set (select_rows xs keep) \<union> set (select_rows xs (map Not keep)) = set xs"
proof -
  assume "length keep = length xs"
  then have "set_mset (mset (select_rows xs keep) + mset (select_rows xs (map Not keep))) = set_mset (mset xs)"
    by (simp only: select_rows_mset)
  then show ?thesis by simp
qed

lemma filter_split_mset: "mset (filter P xs) + mset (filter (\<lambda>x. \<not> P x) xs) = mset xs"
  by (induction xs) auto

lemma select_rows_map: "select_rows xs (map P xs) = filter P xs"
  by (induction xs) (simp_all add: select_rows_def)

lemma select_rows_map_not: "select_rows xs (map Not (map P xs)) = filter (\<lambda>x. \<not> P x) xs"
  by (induction xs) (simp_all add: select_rows_def)

lemma str_accessor_Inr: "str_accessor column selected = Inr vals \<Longrightarrow> vals = selected"
  by (simp add: str_accessor_def split: if_splits)

lemma str_accessor_error: "str_accessor column selected = Inl e \<Longrightarrow> e = AttributeError"
  by (simp add: str_accessor_def split: if_splits)

lemma str_accessor_text:
  "list_ex is_text selected \<Longrightarrow> set selected \<subseteq> set column \<Longrightarrow>
   str_accessor column selected = Inr selected"
  by (auto simp: str_accessor_def object_dtype_def list_ex_iff)

lemma str_accessor_no_text:
  "column \<noteq> [] \<Longrightarrow> \<not> list_ex is_text column \<Longrightarrow>
   str_accessor column selected = Inl AttributeError"
  by (simp add: str_accessor_def object_dtype_def)

lemma apply_xlsx_filters_unfold:
  "apply_xlsx_filters df =
     (case str_accessor (map col_creation_reason df)
             (map col_creation_reason (has_stock_of df)) of
        Inl e \<Rightarrow> Inl e
      | Inr vals \<Rightarrow>
          (case series_apply is_valid_pcf_id (map col_pcf_id (eligible_xlsx_of df)) of
             Inl e \<Rightarrow> Inl e
           | Inr keep \<Rightarrow>
               Inr \<lparr> total = length df,
                     sin_stock_ingram = int (length df) - int (length (has_stock_of df)),
                     has_stock = has_stock_of df,
                     sin_stock_df = sin_stock_df_of df,
                     clearance = length (clearance_products_of df),
                     clearance_products = clearance_products_of df,
                     eligible_xlsx = eligible_xlsx_of df,
                     has_pcf_id = select_rows (eligible_xlsx_of df) keep,
                     no_pcf_id = select_rows (eligible_xlsx_of df) (map Not keep) \<rparr>))"
proof (cases "str_accessor (map col_creation_reason df)
                (map col_creation_reason (has_stock_of df))")
  case (Inl e)
  then show ?thesis by (simp add: apply_xlsx_filters_def series_str_contains_def)
next
  case (Inr vals)
  then have v: "vals = map col_creation_reason (has_stock_of df)"
    by (rule str_accessor_Inr)
  have m: "map (str_contains_value ''CLEARANCE'') vals = map is_clearance (has_stock_of df)"
    by (simp add: v is_clearance_def)
  have c: "select_rows (has_stock_of df) (map is_clearance (has_stock_of df))
           = clearance_products_of df"
    by (simp only: select_rows_map clearance_products_of_def)
  have e: "select_rows (has_stock_of df) (map Not (map is_clearance (has_stock_of df)))
           = eligible_xlsx_of df"
    by (simp only: select_rows_map_not eligible_xlsx_of_def)
  show ?thesis
    by (simp only: apply_xlsx_filters_def series_str_contains_def Inr sum.case m c e)
qed

lemma sin_stock_df_of_alt: "sin_stock_df_of df = filter (\<lambda>r. \<not> stock_positive r) df"
  by (simp add: sin_stock_df_of_def stock_positive_def not_less)

lemma stages_mset:
  "mset (sin_stock_df_of df) + mset (clearance_products_of df) + mset (eligible_xlsx_of df) = mset df"
proof -
  have "mset (clearance_products_of df) + mset (eligible_xlsx_of df) = mset (has_stock_of df)"
    by (simp add: clearance_products_of_def eligible_xlsx_of_def filter_split_mset)
  moreover have "mset (has_stock_of df) + mset (sin_stock_df_of df) = mset df"
    by (simp add: has_stock_of_def sin_stock_df_of_alt filter_split_mset)
  ultimately show ?thesis by (metis add.assoc add.commute)
qed

lemma apply_xlsx_filters_partition:
  assumes "apply_xlsx_filters df = Inr st"
  shows "mset (sin_stock_df st) + mset (clearance_products st) + mset (has_pcf_id st)
           + mset (no_pcf_id st) = mset df"
    and "length (sin_stock_df st) + length (clearance_products st) + length (has_pcf_id st)
           + length (no_pcf_id st) = total st"
    and "total st = length df"
    and "sin_stock_ingram st = int (length (sin_stock_df st))"
    and "clearance st = length (clearance_products st)"
proof -
  from assms obtain keep where
    k: "series_apply is_valid_pcf_id (map col_pcf_id (eligible_xlsx_of df)) = Inr keep"
    and st: "st = \<lparr> total = length df,
                sin_stock_ingram = int (length df) - int (length (has_stock_of df)),
                has_stock = has_stock_of df,
                sin_stock_df = sin_stock_df_of df,
                clearance = length (clearance_products_of df),
                clearance_products = clearance_products_of df,
                eligible_xlsx = eligible_xlsx_of df,
                has_pcf_id = select_rows (eligible_xlsx_of df) keep,
                no_pcf_id = select_rows (eligible_xlsx_of df) (map Not keep) \<rparr>"
    by (auto simp: apply_xlsx_filters_unfold split: sum.splits)
  from k have len: "length keep = length (eligible_xlsx_of df)"
    using series_apply_length by fastforce
  have e: "mset (has_pcf_id st) + mset (no_pcf_id st) = mset (eligible_xlsx_of df)"
    using select_rows_mset [OF len] by (simp add: st)
  have "mset (sin_stock_df st) + mset (clearance_products st) + (mset (has_pcf_id st)
           + mset (no_pcf_id st)) = mset df"
    unfolding e using stages_mset [of df] by (simp add: st)
  then show m: "mset (sin_stock_df st) + mset (clearance_products st) + mset (has_pcf_id st)
           + mset (no_pcf_id st) = mset df"
    by (simp add: ac_simps)
  show t: "total st = length df" by (simp add: st)
  have "size (mset (sin_stock_df st) + mset (clearance_products st) + mset (has_pcf_id st)
           + mset (no_pcf_id st)) = size (mset df)"
    by (simp only: m)
  then show "length (sin_stock_df st) + length (clearance_products st) + length (has_pcf_id st)
           + length (no_pcf_id st) = total st"
    by (simp add: t)
  have "size (mset (has_stock_of df) + mset (sin_stock_df_of df)) = size (mset df)"
    by (simp add: has_stock_of_def sin_stock_df_of_alt filter_split_mset)
  then show "sin_stock_ingram st = int (length (sin_stock_df st))"
    by (simp add: st)
  show "clearance st = length (clearance_products st)" by (simp add: st)
qed

lemma apply_xlsx_filters_returns_iff:
  "(\<exists>st. apply_xlsx_filters df = Inr st) \<longleftrightarrow>
   (\<exists>vals. str_accessor (map col_creation_reason df)
               (map col_creation_reason (has_stock_of df)) = Inr vals)
   \<and> (\<forall>r \<in> set (eligible_xlsx_of df). \<exists>b. is_valid_pcf_id (col_pcf_id r) = Inr b)"
proof -
  have "(\<exists>st. apply_xlsx_filters df = Inr st) \<longleftrightarrow>
        (\<exists>vals. str_accessor (map col_creation_reason df)
               (map col_creation_reason (has_stock_of df)) = Inr vals)
        \<and> (\<exists>keep. series_apply is_valid_pcf_id (map col_pcf_id (eligible_xlsx_of df))
               = Inr keep)"
    by (auto simp: apply_xlsx_filters_unfold split: sum.splits)
  then show ?thesis by (simp add: series_apply_Inr_iff)
qed

lemma all_missing_reasons_raise:
  assumes "df \<noteq> []" "\<forall>r \<in> set df. col_creation_reason r = NA"
  shows "apply_xlsx_filters df = Inl AttributeError"
proof -
  have "\<not> list_ex is_text (map col_creation_reason df)"
    using assms(2) by (auto simp: list_ex_iff)
  moreover have "map col_creation_reason df \<noteq> []" using assms(1) by simp
  ultimately have "str_accessor (map col_creation_reason df)
                     (map col_creation_reason (has_stock_of df)) = Inl AttributeError"
    by (rule str_accessor_no_text [rotated])
  then show ?thesis by (simp add: apply_xlsx_filters_unfold)
qed

text \<open>
  \<^verbatim>\<open>apply_xlsx_filters\<close> returns exactly when the accessor \<^verbatim>\<open>.str\<close> is granted on the
  creation reasons and the identifier check answers for every row that reaches it (lemma
  \<open>apply_xlsx_filters_returns_iff\<close>); otherwise it raises \<^verbatim>\<open>AttributeError\<close> or
  \<^verbatim>\<open>OverflowError\<close>. When it returns, its four parts are a partition of the rows (lemma
  \<open>apply_xlsx_filters_partition\<close>).
\<close>

lemma sample_not_clearance: "\<not> is_clearance (sample_row i q (Str ''NEW''))"
  by (simp add: is_clearance_def sample_row_def char_defs)

lemma sample_has_stock:
  "has_stock_of [sample_row i (Some 5) a, sample_row j (Some 5) b]
   = [sample_row i (Some 5) a, sample_row j (Some 5) b]"
  "has_stock_of [sample_row i (Some 5) a] = [sample_row i (Some 5) a]"
  by (simp_all add: has_stock_of_def stock_positive_def fillna0_def sample_row_def)

lemma sample_reason: "col_creation_reason (sample_row i q a) = a"
  by (simp add: sample_row_def)

lemma sample_ident: "col_pcf_id (sample_row i q a) = i"
  by (simp add: sample_row_def)

lemma sample_stage:
  "eligible_xlsx_of [sample_row i (Some 5) (Str ''NEW''), sample_row j (Some 5) (Str ''NEW'')]
   = [sample_row i (Some 5) (Str ''NEW''), sample_row j (Some 5) (Str ''NEW'')]"
  "eligible_xlsx_of [sample_row i (Some 5) (Str ''NEW'')] = [sample_row i (Some 5) (Str ''NEW'')]"
  "clearance_products_of [sample_row i (Some 5) (Str ''NEW'')] = []"
  by (simp_all add: eligible_xlsx_of_def clearance_products_of_def sample_has_stock
        sample_not_clearance)

lemma sample_accessor:
  "str_accessor [Str ''NEW'', Str ''NEW''] [Str ''NEW'', Str ''NEW'']
   = Inr [Str ''NEW'', Str ''NEW'']"
  "str_accessor [Str ''NEW''] [Str ''NEW''] = Inr [Str ''NEW'']"
  by (simp_all add: str_accessor_def object_dtype_def)

text \<open>
  Claim C2. The partition is promised for every set of rows, yet a stocked row without
  clearance tag whose identifier reads \<^verbatim>\<open>inf\<close> makes the identifier check raise
  \<^verbatim>\<open>OverflowError\<close>; \<^verbatim>\<open>Series.apply\<close> passes the exception on and
  \<^verbatim>\<open>apply_xlsx_filters\<close> returns no part at all, for any of the rows.
\<close>

theorem apply_xlsx_filters_overflow:
  "apply_xlsx_filters
     [sample_row (Str ''123'') (Some 5) (Str ''NEW''),
      sample_row (Str ''inf'') (Some 5) (Str ''NEW'')]
   = Inl OverflowError"
  by (simp add: apply_xlsx_filters_unfold sample_has_stock sample_reason sample_accessor
        sample_stage sample_ident is_valid_123 is_valid_inf)

lemma missing_reason_not_clearance: "col_creation_reason r = NA \<Longrightarrow> \<not> is_clearance r"
  by (simp add: is_clearance_def)

lemma missing_reason_stage:
  assumes "r \<in> set df" "0 < fillna0 (col_available_qty r)" "col_creation_reason r = NA"
  shows "r \<notin> set (clearance_products_of df)" "r \<in> set (eligible_xlsx_of df)"
  using assms
  by (simp_all add: clearance_products_of_def eligible_xlsx_of_def has_stock_of_def
        stock_positive_def missing_reason_not_clearance)

text \<open>
  Whenever \<^verbatim>\<open>apply_xlsx_filters\<close> returns, a stocked row whose creation reason is
  missing is outside \<^verbatim>\<open>clearance_products\<close> and in \<^verbatim>\<open>has_pcf_id\<close> or \<^verbatim>\<open>no_pcf_id\<close>.
\<close>

lemma missing_reason_final:
  assumes "r \<in> set df" "0 < fillna0 (col_available_qty r)" "col_creation_reason r = NA"
    and "apply_xlsx_filters df = Inr st"
  shows "r \<notin> set (clearance_products st) \<and> r \<in> set (has_pcf_id st) \<union> set (no_pcf_id st)"
proof -
  from assms(4) obtain keep where
    k: "series_apply is_valid_pcf_id (map col_pcf_id (eligible_xlsx_of df)) = Inr keep"
    and c: "clearance_products st = clearance_products_of df"
    and h: "has_pcf_id st = select_rows (eligible_xlsx_of df) keep"
    and n: "no_pcf_id st = select_rows (eligible_xlsx_of df) (map Not keep)"
    by (auto simp: apply_xlsx_filters_unfold split: sum.splits)
  from k have len: "length keep = length (eligible_xlsx_of df)"
    using series_apply_length by fastforce
  show ?thesis
    using missing_reason_stage [OF assms(1-3)] select_rows_set [OF len]
    by (simp add: c h n)
qed

lemma sample_filters_valid:
  assumes "is_valid_pcf_id i = Inr True"
  shows "apply_xlsx_filters [sample_row i (Some 5) (Str ''NEW'')]
   = Inr \<lparr> total = 1, sin_stock_ingram = 0,
           has_stock = [sample_row i (Some 5) (Str ''NEW'')], sin_stock_df = [],
           clearance = 0, clearance_products = [],
           eligible_xlsx = [sample_row i (Some 5) (Str ''NEW'')],
           has_pcf_id = [sample_row i (Some 5) (Str ''NEW'')], no_pcf_id = [] \<rparr>"
proof -
  have z: "sin_stock_df_of [sample_row i (Some 5) (Str ''NEW'')] = []"
    by (simp add: sin_stock_df_of_def fillna0_def sample_row_def)
  show ?thesis
    by (simp add: apply_xlsx_filters_unfold sample_has_stock sample_reason sample_accessor
          sample_stage sample_ident assms z select_rows_def)
qed

text \<open>
  Claim C10. The clearance test passes \<^verbatim>\<open>na=False\<close>, so that a missing creation reason
  counts as not containing \<^verbatim>\<open>CLEARANCE\<close>, and where the function returns such a row
  does go on to the identifier check (lemma \<open>missing_reason_final\<close>). But where no row of
  the file has a creation reason the column is read as \<^verbatim>\<open>float64\<close>, the accessor
  \<^verbatim>\<open>.str\<close> raises \<^verbatim>\<open>AttributeError\<close> before \<^verbatim>\<open>na=False\<close> is looked at, and the
  stocked row with the missing reason reaches no stage at all.
\<close>

theorem apply_xlsx_filters_missing_reasons:
  "apply_xlsx_filters [sample_row (Num ''123'') (Some 5) NA] = Inl AttributeError
   \<and> apply_xlsx_filters
        [sample_row (Str ''123'') (Some 5) NA, sample_row (Str ''Sin ID'') None NA]
      = Inl AttributeError"
proof -
  have 1: "apply_xlsx_filters [sample_row (Num ''123'') (Some 5) NA] = Inl AttributeError"
    by (rule all_missing_reasons_raise) (simp_all add: sample_reason)
  have 2: "apply_xlsx_filters
             [sample_row (Str ''123'') (Some 5) NA, sample_row (Str ''Sin ID'') None NA]
           = Inl AttributeError"
    by (rule all_missing_reasons_raise) (simp_all add: sample_reason)
  show ?thesis using 1 2 by simp
qed

section \<open>The stock parser\<close>

lemma int_digits_error: "int_digits b = Inl e \<Longrightarrow> e = ValueError"
  by (simp add: int_digits_def split: if_splits)

lemma py_int_error: "py_int s = Inl e \<Longrightarrow> e = ValueError"
  by (cases "strip_with num_space s")
     (auto simp: py_int_def map_sum_def split: if_splits sum.splits dest: int_digits_error)

lemma int_or_zero_cases:
  "int_or_zero x = (case py_int x of Inr n \<Rightarrow> Inr n | Inl e \<Rightarrow> Inr 0)"
  by (auto simp: int_or_zero_def split: sum.splits dest: py_int_error)

lemma set_strip_with: "set (strip_with p s) \<subseteq> set s"
proof -
  have "set (strip_with p s) \<subseteq> set (dropWhile p s)"
    unfolding strip_with_def using set_dropWhileD [of _ p "rev (dropWhile p s)"] by auto
  also have "\<dots> \<subseteq> set s" using set_dropWhileD [of _ p s] by auto
  finally show ?thesis .
qed

lemma py_int_negative: "py_int s = Inr n \<Longrightarrow> n < 0 \<Longrightarrow> CHR ''-'' \<in> set s"
proof -
  assume a: "py_int s = Inr n" and neg: "n < 0"
  show ?thesis
  proof (cases "strip_with num_space s")
    case Nil
    with a show ?thesis by (simp add: py_int_def)
  next
    case (Cons c b)
    with a neg have "c = CHR ''-''"
      by (auto simp: py_int_def map_sum_def split: if_splits sum.splits)
    with Cons have "CHR ''-'' \<in> set (strip_with num_space s)" by simp
    then show ?thesis using set_strip_with [of num_space s] by blast
  qed
qed

lemma int_or_zero_negative: "int_or_zero x = Inr n \<Longrightarrow> n < 0 \<Longrightarrow> CHR ''-'' \<in> set x"
  by (auto simp: int_or_zero_cases split: sum.splits dest: py_int_negative)

lemma parse_stock_total: "\<exists>n. parse_stock_aproximado sd = Inr n"
  by (auto simp: parse_stock_aproximado_def int_or_zero_cases split: sum.splits)

lemma parse_stock_negative:
  "parse_stock_aproximado sd = Inr n \<Longrightarrow> n < 0 \<Longrightarrow> CHR ''-'' \<in> set (aprox_text sd)"
  by (auto simp: parse_stock_aproximado_def split: if_splits
           dest!: int_or_zero_negative dest: in_set_dropD)

lemma aprox_text_None: "aprox_text PNone = ''None''"
  by (simp add: aprox_text_def char_defs str_defs)

lemma py_int_None: "py_int ''None'' = Inl ValueError"
  by (simp add: py_int_def int_digits_def char_defs str_defs)

lemma parse_stock_plus:
  "aprox_text sd = CHR ''+'' # rest \<Longrightarrow> py_int rest = Inr n \<Longrightarrow> parse_stock_aproximado sd = Inr n"
  using aprox_text_None
  by (auto simp: parse_stock_aproximado_def int_or_zero_cases startswith_def)

lemma parse_stock_plus_bad:
  "aprox_text sd = CHR ''+'' # rest \<Longrightarrow> py_int rest = Inl e \<Longrightarrow> parse_stock_aproximado sd = Inr 0"
  by (auto simp: parse_stock_aproximado_def int_or_zero_cases startswith_def)

lemma parse_stock_plain:
  "\<not> startswith (aprox_text sd) ''+'' \<Longrightarrow> py_int (aprox_text sd) = Inr n \<Longrightarrow> parse_stock_aproximado sd = Inr n"
  using aprox_text_None py_int_None
  by (auto simp: parse_stock_aproximado_def int_or_zero_cases)

lemma parse_stock_plain_bad:
  "\<not> startswith (aprox_text sd) ''+'' \<Longrightarrow> py_int (aprox_text sd) = Inl e \<Longrightarrow> parse_stock_aproximado sd = Inr 0"
  by (auto simp: parse_stock_aproximado_def int_or_zero_cases)

lemma py_int_examples: "py_int ''15'' = Inr 15" "py_int ''7'' = Inr 7" "py_int ''-5'' = Inr (- 5)"
  "py_int ''0'' = Inr 0" "py_int [] = Inl ValueError" "py_int ''abc'' = Inl ValueError"
  by (simp_all add: py_int_def int_digits_def char_defs str_defs)

lemma parse_examples:
  "parse_stock_aproximado (PStr ''+15'') = Inr 15"
  "parse_stock_aproximado (PDict [(''aproximado'', PStr ''+15'')] t) = Inr 15"
  "parse_stock_aproximado (PStr ''7'') = Inr 7"
  "parse_stock_aproximado (PInt 7) = Inr 7"
  "parse_stock_aproximado PNone = Inr 0"
  "parse_stock_aproximado (PStr []) = Inr 0"
  "parse_stock_aproximado (PDict [] t) = Inr 0"
  "parse_stock_aproximado (PStr ''abc'') = Inr 0"
  "parse_stock_aproximado (PStr ''-5'') = Inr (- 5)"
  "parse_stock_aproximado (PInt (- 5)) = Inr (- 5)"
  "parse_stock_aproximado (PDict [(''aproximado'', PStr ''-5'')] t) = Inr (- 5)"
  by (simp_all add: parse_stock_aproximado_def aprox_text_def dict_get_def int_or_zero_def
        py_int_def int_digits_def py_str_int_def nat_digits.simps char_defs str_defs)

lemma check_product_api_results:
  "check_product_api outcome = Inr r \<Longrightarrow>
   r = error_result \<or> r = not_found_result
   \<or> (\<exists>m n d. r = \<lparr> api_status = ''ok'', mayorista = m, stock_pcf = Some n, ficha_vacia = Some d \<rparr>)"
  by (cases outcome)
     (auto simp: check_product_api_def except_request_def ok_result_def
           split: if_splits sum.splits)

lemma error_status_unknown_stock:
  "check_product_api outcome = Inr r \<Longrightarrow> api_status r = ''error'' \<Longrightarrow> stock_pcf r = None"
  by (drule check_product_api_results) (auto simp: error_result_def not_found_result_def)

lemma future_result_unknown_stock:
  "api_status (future_result outcome) = ''error'' \<Longrightarrow> stock_pcf (future_result outcome) = None"
  by (cases "check_product_api outcome")
     (auto simp: future_result_def error_result_def dest: error_status_unknown_stock)

lemma ok_result_stock: "ok_result data = Inr r \<Longrightarrow> \<exists>n. stock_pcf r = Some n"
  by (auto simp: ok_result_def split: sum.splits)


text \<open>
  Claim C4. \<^verbatim>\<open>parse_stock_aproximado\<close> returns an integer for every value. What it
  parses is the text \<open>aprox_text\<close>: the entry \<^verbatim>\<open>aproximado\<close> of a dictionary, or the
  value itself. With a leading \<^verbatim>\<open>+\<close> the result is the integer that follows it
  (\<^verbatim>\<open>+15\<close> gives 15), a plain numeral gives its value (\<^verbatim>\<open>7\<close> gives 7), and an absent,
  empty or unparseable value gives 0. A lookup result with status \<^verbatim>\<open>error\<close>, whether
  \<^verbatim>\<open>check_product_api\<close> returned it or the batch built it from an exception, has the
  stock \<^verbatim>\<open>None\<close>, not 0.
\<close>

theorem parse_stock_aproximado_spec:
  "(\<exists>n. parse_stock_aproximado sd = Inr n)
   \<and> (\<forall>rest n. aprox_text sd = CHR ''+'' # rest \<and> py_int rest = Inr n
         \<longrightarrow> parse_stock_aproximado sd = Inr n)
   \<and> (\<forall>n. \<not> startswith (aprox_text sd) ''+'' \<and> py_int (aprox_text sd) = Inr n
         \<longrightarrow> parse_stock_aproximado sd = Inr n)
   \<and> (\<forall>rest e. aprox_text sd = CHR ''+'' # rest \<and> py_int rest = Inl e
         \<longrightarrow> parse_stock_aproximado sd = Inr 0)
   \<and> (\<forall>e. \<not> startswith (aprox_text sd) ''+'' \<and> py_int (aprox_text sd) = Inl e
         \<longrightarrow> parse_stock_aproximado sd = Inr 0)
   \<and> parse_stock_aproximado (PStr ''+15'') = Inr 15
   \<and> parse_stock_aproximado (PDict [(''aproximado'', PStr ''+15'')] t) = Inr 15
   \<and> parse_stock_aproximado (PStr ''7'') = Inr 7
   \<and> parse_stock_aproximado (PInt 7) = Inr 7
   \<and> parse_stock_aproximado PNone = Inr 0
   \<and> parse_stock_aproximado (PStr []) = Inr 0
   \<and> parse_stock_aproximado (PDict [] t) = Inr 0
   \<and> parse_stock_aproximado (PStr ''abc'') = Inr 0
   \<and> (\<forall>r. check_product_api outcome = Inr r \<and> api_status r = ''error''
         \<longrightarrow> stock_pcf r = None \<and> stock_pcf r \<noteq> Some 0)
   \<and> (api_status (future_result outcome) = ''error''
         \<longrightarrow> stock_pcf (future_result outcome) = None)"
proof -
  have e: "\<forall>r. check_product_api outcome = Inr r \<and> api_status r = ''error''
             \<longrightarrow> stock_pcf r = None \<and> stock_pcf r \<noteq> Some 0"
    using error_status_unknown_stock [of outcome] by simp
  show ?thesis
    using parse_stock_total [of sd] parse_stock_plus [of sd] parse_stock_plain [of sd]
      parse_stock_plus_bad [of sd] parse_stock_plain_bad [of sd]
      parse_examples(1-8) e future_result_unknown_stock [of outcome]
    by blast
qed

theorem parse_stock_aproximado_spec_witness:
  "aprox_text (PStr ''+15'') = CHR ''+'' # ''15'' \<and> py_int ''15'' = Inr 15
   \<and> parse_stock_aproximado (PStr ''+15'') = Inr 15
   \<and> \<not> startswith (aprox_text (PStr ''7'')) ''+'' \<and> py_int (aprox_text (PStr ''7'')) = Inr 7
   \<and> parse_stock_aproximado (PStr ''7'') = Inr 7
   \<and> \<not> startswith (aprox_text (PStr ''abc'')) ''+''
   \<and> py_int (aprox_text (PStr ''abc'')) = Inl ValueError
   \<and> parse_stock_aproximado (PStr ''abc'') = Inr 0
   \<and> check_product_api (Response 500 (Inl ValueError)) = Inr error_result
   \<and> api_status error_result = ''error'' \<and> stock_pcf error_result = None"
proof -
  have a: "aprox_text (PStr ''+15'') = CHR ''+'' # ''15''" "aprox_text (PStr ''7'') = ''7''"
    "aprox_text (PStr ''abc'') = ''abc''"
    by (simp_all add: aprox_text_def char_defs str_defs)
  have s: "\<not> startswith ''7'' ''+''" "\<not> startswith ''abc'' ''+''"
    by (simp_all add: startswith_def)
  have c: "check_product_api (Response 500 (Inl ValueError)) = Inr error_result"
    by (simp add: check_product_api_def except_request_def resp_ok_def)
  have st: "api_status error_result = ''error''" by (simp add: error_result_def)
  have p1: "parse_stock_aproximado (PStr ''+15'') = Inr 15"
    using parse_stock_aproximado_spec
      [where sd = "PStr ''+15''" and t = "[]" and outcome = "Response 500 (Inl ValueError)"]
      a(1) py_int_examples(1) by blast
  have p2: "parse_stock_aproximado (PStr ''7'') = Inr 7"
    using parse_stock_aproximado_spec
      [where sd = "PStr ''7''" and t = "[]" and outcome = "Response 500 (Inl ValueError)"]
      a(2) s(1) py_int_examples(2) by simp
  have p3: "parse_stock_aproximado (PStr ''abc'') = Inr 0"
    using parse_stock_aproximado_spec
      [where sd = "PStr ''abc''" and t = "[]" and outcome = "Response 500 (Inl ValueError)"]
      a(3) s(2) py_int_examples(6) by simp
  have p4: "stock_pcf error_result = None"
    using parse_stock_aproximado_spec
      [where sd = "PStr ''abc''" and t = "[]" and outcome = "Response 500 (Inl ValueError)"]
      c st by blast
  show ?thesis
    using a s c st p1 p2 p3 p4 py_int_examples by simp
qed

text \<open>
  Claim C8, as stated, fails: nothing in the parser rejects a minus sign. The text
  \<^verbatim>\<open>-5\<close> and the number \<open>-5\<close> parse to \<open>-5\<close>, and a success response that carries
  it yields a lookup result whose stock is \<open>-5\<close>.
\<close>

theorem stock_parser_negative:
  "parse_stock_aproximado (PStr ''-5'') = Inr (- 5)
   \<and> parse_stock_aproximado (PInt (- 5)) = Inr (- 5)
   \<and> check_product_api
        (Response 200
           (Inr (PDict [(''stock'', PDict [(''aproximado'', PStr ''-5'')] ''{'aproximado': '-5'}'')]
                   ''{'stock': {'aproximado': '-5'}}'')))
      = Inr \<lparr> api_status = ''ok'', mayorista = PBool False, stock_pcf = Some (- 5),
              ficha_vacia = Some True \<rparr>"
  by (simp add: parse_examples check_product_api_def except_request_def resp_ok_def
        ok_result_def dict_get_def is_description_empty_def)

text \<open>
  Claim C8, amended. The parser returns an integer for every value, and a negative one
  only when the text it parses carries a minus sign; without a minus sign the count is
  not negative. The stock of a success result is the integer the parser returned for the
  entry \<^verbatim>\<open>stock\<close> of the response.
\<close>

theorem stock_parser_sign:
  "(\<exists>n. parse_stock_aproximado sd = Inr n
        \<and> (n < 0 \<longrightarrow> CHR ''-'' \<in> set (aprox_text sd))
        \<and> (CHR ''-'' \<notin> set (aprox_text sd) \<longrightarrow> 0 \<le> n))
   \<and> (\<forall>r. ok_result data = Inr r
         \<longrightarrow> (\<exists>stock_data n. py_get data ''stock'' (PDict [] ''{}'') = Inr stock_data
                  \<and> parse_stock_aproximado stock_data = Inr n \<and> stock_pcf r = Some n))"
proof -
  obtain n where n: "parse_stock_aproximado sd = Inr n"
    using parse_stock_total by blast
  have "n < 0 \<longrightarrow> CHR ''-'' \<in> set (aprox_text sd)"
    using parse_stock_negative [OF n] by blast
  moreover from this have "CHR ''-'' \<notin> set (aprox_text sd) \<longrightarrow> 0 \<le> n"
    by auto
  moreover have "\<forall>r. ok_result data = Inr r
         \<longrightarrow> (\<exists>stock_data n. py_get data ''stock'' (PDict [] ''{}'') = Inr stock_data
                  \<and> parse_stock_aproximado stock_data = Inr n \<and> stock_pcf r = Some n)"
    by (auto simp: ok_result_def split: sum.splits)
  ultimately show ?thesis using n by blast
qed

theorem stock_parser_sign_witness:
  "parse_stock_aproximado (PStr ''-5'') = Inr (- 5) \<and> (- 5 :: int) < 0
   \<and> CHR ''-'' \<in> set (aprox_text (PStr ''-5''))
   \<and> CHR ''-'' \<notin> set (aprox_text (PStr ''+15''))
   \<and> (\<exists>n. parse_stock_aproximado (PStr ''+15'') = Inr n \<and> 0 \<le> n)"
proof -
  have m: "CHR ''-'' \<in> set (aprox_text (PStr ''-5''))"
    using stock_parser_sign [of "PStr ''-5''" PNone] parse_examples(9) by auto
  have t: "CHR ''-'' \<notin> set (aprox_text (PStr ''+15''))"
    by (simp add: aprox_text_def char_defs str_defs)
  have p: "\<exists>n. parse_stock_aproximado (PStr ''+15'') = Inr n \<and> 0 \<le> n"
    using stock_parser_sign [of "PStr ''+15''" PNone] t by blast
  show ?thesis using m t p parse_examples(9) by simp
qed

section \<open>Empty descriptions\<close>

lemma re_sub_tags_prefix:
  "\<forall>c \<in> set ws. c \<noteq> CHR ''<'' \<Longrightarrow> re_sub_tags (ws @ s) = ws @ re_sub_tags s"
  by (induction ws) simp_all

lemma re_sub_tags_plain: "CHR ''<'' \<notin> set s \<Longrightarrow> re_sub_tags s = s"
  using re_sub_tags_prefix [of s "[]"] by auto

lemma dropWhile_append_keep:
  "dropWhile P cs \<noteq> [] \<Longrightarrow> dropWhile P (cs @ ws) = dropWhile P cs @ ws"
  by (induction cs) auto

lemma dropWhile_append_none:
  "dropWhile P cs = [] \<Longrightarrow> \<forall>x \<in> set ws. P x \<Longrightarrow> dropWhile P (cs @ ws) = []"
  by (induction cs) (auto split: if_splits)

lemma takeWhile_append_some:
  "dropWhile P cs \<noteq> [] \<Longrightarrow> takeWhile P (cs @ ws) = takeWhile P cs"
  by (induction cs) auto

lemma re_sub_tags_suffix:
  "\<forall>c \<in> set ws. c \<noteq> CHR ''<'' \<and> c \<noteq> CHR ''>'' \<Longrightarrow> re_sub_tags (s @ ws) = re_sub_tags s @ ws"
proof (induction s rule: re_sub_tags.induct)
  case 1
  then show ?case using re_sub_tags_plain [of ws] by auto
next
  case (2 c cs)
  let ?P = "\<lambda>x. x \<noteq> CHR ''>''"
  have all: "\<forall>x \<in> set ws. ?P x" using 2(3) by blast
  show ?case
  proof (cases "c = CHR ''<'' \<and> takeWhile ?P cs \<noteq> [] \<and> dropWhile ?P cs \<noteq> []")
    case True
    then have d: "dropWhile ?P (cs @ ws) = dropWhile ?P cs @ ws"
      using dropWhile_append_keep by blast
    have t: "takeWhile ?P (cs @ ws) = takeWhile ?P cs"
      using True takeWhile_append_some by blast
    have "re_sub_tags ((c # cs) @ ws) = re_sub_tags (tl (dropWhile ?P cs) @ ws)"
      using True d t by simp
    also have "\<dots> = re_sub_tags (tl (dropWhile ?P cs)) @ ws"
      using 2(1) [OF True] 2(3) by simp
    finally show ?thesis using True by simp
  next
    case False
    have ih: "re_sub_tags (cs @ ws) = re_sub_tags cs @ ws"
      using 2(2) [OF False] 2(3) by simp
    show ?thesis
    proof (cases "c = CHR ''<''")
      case c: True
      show ?thesis
      proof (cases "dropWhile ?P cs = []")
        case True
        then have "dropWhile ?P (cs @ ws) = []"
          using dropWhile_append_none [OF _ all] by blast
        then show ?thesis using True ih by simp
      next
        case nd: False
        with False c have tk: "takeWhile ?P cs = []" by blast
        have "takeWhile ?P (cs @ ws) = []"
          using takeWhile_append_some [OF nd, of ws] tk by simp
        then show ?thesis using tk ih by simp
      qed
    next
      case False
      then show ?thesis using ih by simp
    qed
  qed
qed

lemma strip_with_decompose:
  "s = takeWhile p s @ strip_with p s @ rev (takeWhile p (rev (dropWhile p s)))"
proof -
  have "rev (dropWhile p s) = takeWhile p (rev (dropWhile p s)) @ dropWhile p (rev (dropWhile p s))"
    by simp
  then have "dropWhile p s = rev (dropWhile p (rev (dropWhile p s))) @ rev (takeWhile p (rev (dropWhile p s)))"
    by (metis rev_append rev_rev_ident)
  then have "dropWhile p s = strip_with p s @ rev (takeWhile p (rev (dropWhile p s)))"
    by (simp add: strip_with_def)
  then show ?thesis
    by (metis takeWhile_dropWhile_id)
qed

lemma dropWhile_append_skip:
  "\<forall>x \<in> set b. P x \<Longrightarrow> dropWhile P (b @ y) = dropWhile P y"
  by (induction b) auto

lemma strip_with_padding:
  assumes "\<forall>x \<in> set a. p x" "\<forall>x \<in> set b. p x"
  shows "strip_with p (a @ x @ b) = strip_with p x"
proof -
  have 1: "dropWhile p (a @ x @ b) = dropWhile p (x @ b)"
    using assms(1) by (rule dropWhile_append_skip)
  show ?thesis
  proof (cases "dropWhile p x = []")
    case True
    then have e: "dropWhile p (x @ b) = []"
      using dropWhile_append_none assms(2) by blast
    have "strip_with p (a @ x @ b) = []"
      by (simp only: strip_with_def 1 e) simp
    moreover have "strip_with p x = []"
      by (simp only: strip_with_def True) simp
    ultimately show ?thesis by simp
  next
    case False
    then have 2: "dropWhile p (x @ b) = dropWhile p x @ b"
      by (rule dropWhile_append_keep)
    have "\<forall>x \<in> set (rev b). p x" using assms(2) by simp
    then have "dropWhile p (rev b @ rev (dropWhile p x)) = dropWhile p (rev (dropWhile p x))"
      by (rule dropWhile_append_skip)
    then show ?thesis
      by (simp only: strip_with_def 1 2 rev_append)
  qed
qed

lemma isspace_not_angle: "py_isspace c \<Longrightarrow> c \<noteq> CHR ''<'' \<and> c \<noteq> CHR ''>''"
  by (auto simp: py_isspace_def)

lemma strip_re_sub_strip: "py_strip (re_sub_tags (py_strip s)) = py_strip (re_sub_tags s)"
proof -
  define a where "a = takeWhile py_isspace s"
  define b where "b = rev (takeWhile py_isspace (rev (dropWhile py_isspace s)))"
  have s: "s = a @ py_strip s @ b"
    unfolding a_def b_def py_strip_def by (rule strip_with_decompose)
  have pa: "\<forall>x \<in> set a. py_isspace x"
    unfolding a_def by (auto dest: set_takeWhileD)
  have pb: "\<forall>x \<in> set b. py_isspace x"
    unfolding b_def by (auto dest: set_takeWhileD)
  have "re_sub_tags (a @ py_strip s @ b) = a @ re_sub_tags (py_strip s @ b)"
    using pa isspace_not_angle by (intro re_sub_tags_prefix) blast
  also have "\<dots> = a @ re_sub_tags (py_strip s) @ b"
    using pb isspace_not_angle re_sub_tags_suffix [of b "py_strip s"] by simp
  finally have "re_sub_tags s = a @ re_sub_tags (py_strip s) @ b"
    using s by simp
  then have "py_strip (re_sub_tags s) = strip_with py_isspace (a @ re_sub_tags (py_strip s) @ b)"
    by (simp add: py_strip_def)
  also have "\<dots> = strip_with py_isspace (re_sub_tags (py_strip s))"
    using pa pb by (rule strip_with_padding)
  finally show ?thesis by (simp add: py_strip_def)
qed

lemma py_strip_Nil: "py_strip [] = []"
  by (simp add: py_strip_def strip_with_def)

lemma description_text_empty:
  "is_description_empty (PStr s) = (length (py_strip (re_sub_tags s)) < 20)"
proof (cases "py_strip s = []")
  case True
  then have "py_strip (re_sub_tags s) = []"
    using strip_re_sub_strip [of s] by (simp add: py_strip_Nil)
  then show ?thesis using True by (simp add: is_description_empty_def)
next
  case False
  then have "s \<noteq> []" using py_strip_Nil by auto
  then show ?thesis using False by (simp add: is_description_empty_def strip_re_sub_strip)
qed

lemma description_plain_25:
  "length s = 25 \<Longrightarrow> CHR ''<'' \<notin> set s \<Longrightarrow> py_strip s = s \<Longrightarrow> \<not> is_description_empty (PStr s)"
  by (simp add: description_text_empty re_sub_tags_plain)

lemma description_blank: "py_strip s = [] \<Longrightarrow> is_description_empty (PStr s)"
  by (simp add: is_description_empty_def)

lemma description_examples:
  "is_description_empty PNone"
  "is_description_empty (PStr ''<b></b>'')"
  "is_description_empty (PStr ''<p>  Notebook HP 15.6   </p>'')"
  "\<not> is_description_empty (PStr ''Notebook HP 15.6 FHD 8GB'')"
  by (simp_all add: is_description_empty_def char_defs str_defs)

lemma tags_example: "re_sub_tags ''<p>  Notebook HP 15.6   </p>'' = ''  Notebook HP 15.6   ''"
  by simp

text \<open>
  Claim C9, as stated, fails: the program trims whitespace before it counts. A
  description whose text without markup has 21 characters, five of them surrounding
  blanks, counts as empty.
\<close>

theorem description_padding_counterexample:
  "spec_substantive ''<p>  Notebook HP 15.6   </p>''
   \<and> length (re_sub_tags ''<p>  Notebook HP 15.6   </p>'') = 21
   \<and> is_description_empty (PStr ''<p>  Notebook HP 15.6   </p>'')"
  by (simp add: spec_substantive_def tags_example description_examples)

text \<open>
  Claim C9, amended. A description text is empty exactly when fewer than 20 characters
  remain once the markup is removed and the surrounding whitespace is trimmed. So
  \<^verbatim>\<open><b></b>\<close> is empty, a null or blank description is empty, and a plain text of 25
  characters without markup and without surrounding whitespace is not.
\<close>

theorem is_description_empty_trimmed:
  "is_description_empty (PStr s) = (length (py_strip (re_sub_tags s)) < 20)
   \<and> is_description_empty PNone
   \<and> is_description_empty (PStr ''<b></b>'')
   \<and> (py_strip s = [] \<longrightarrow> is_description_empty (PStr s))
   \<and> (length s = 25 \<and> CHR ''<'' \<notin> set s \<and> py_strip s = s
        \<longrightarrow> \<not> is_description_empty (PStr s))"
  using description_text_empty [of s] description_examples(1,2) description_blank [of s]
    description_plain_25 [of s]
  by blast

theorem is_description_empty_trimmed_witness:
  "length ''Notebook HP 15.6 FHD 8GB.'' = 25 \<and> CHR ''<'' \<notin> set ''Notebook HP 15.6 FHD 8GB.''
   \<and> py_strip ''Notebook HP 15.6 FHD 8GB.'' = ''Notebook HP 15.6 FHD 8GB.''
   \<and> \<not> is_description_empty (PStr ''Notebook HP 15.6 FHD 8GB.'')
   \<and> py_strip ''   '' = [] \<and> is_description_empty (PStr ''   '')"
proof -
  have l: "length ''Notebook HP 15.6 FHD 8GB.'' = 25" by simp
  have n: "CHR ''<'' \<notin> set ''Notebook HP 15.6 FHD 8GB.''" by simp
  have t: "py_strip ''Notebook HP 15.6 FHD 8GB.'' = ''Notebook HP 15.6 FHD 8GB.''"
    by (simp add: char_defs str_defs)
  have b: "py_strip ''   '' = []" by (simp add: char_defs str_defs)
  have 1: "\<not> is_description_empty (PStr ''Notebook HP 15.6 FHD 8GB.'')"
    using is_description_empty_trimmed [of "''Notebook HP 15.6 FHD 8GB.''"] l n t by blast
  have 2: "is_description_empty (PStr ''   '')"
    using is_description_empty_trimmed [of "''   ''"] b by blast
  show ?thesis using l n t b 1 2 by simp
qed

section \<open>Valid identifiers\<close>

lemma of_char_lower:
  "(of_char (py_lower_char c) :: nat) =
     (if (65 \<le> (of_char c :: nat) \<and> (of_char c :: nat) \<le> 90)
         \<or> (192 \<le> (of_char c :: nat) \<and> (of_char c :: nat) \<le> 222 \<and> (of_char c :: nat) \<noteq> 215)
      then of_char c + 32 else of_char c)"
  by (auto simp: py_lower_char_def Let_def)

lemma char_eq_code: "(c = d) = ((of_char c :: nat) = of_char d)"
  by (simp add: of_char_eq_iff)

lemma lower_num_space: "num_space (py_lower_char c) = num_space c"
  by (auto simp: num_space_def of_char_lower)

lemma lower_is_digit: "is_digit (py_lower_char c) = is_digit c"
  by (auto simp: is_digit_def of_char_lower)

lemma lower_digit_fix: "is_digit c \<Longrightarrow> py_lower_char c = c"
  by (auto simp: is_digit_def py_lower_char_def Let_def)

lemma lower_eq_punct:
  "(py_lower_char c = CHR ''_'') = (c = CHR ''_'')"
  "(py_lower_char c = CHR ''-'') = (c = CHR ''-'')"
  "(py_lower_char c = CHR ''+'') = (c = CHR ''+'')"
  "(py_lower_char c = CHR ''.'') = (c = CHR ''.'')"
  "(py_lower_char c = CHR ''e'') = (c = CHR ''e'' \<or> c = CHR ''E'')"
  "(py_lower_char c = CHR ''E'') = False"
  "py_lower_char (CHR 0x00) = CHR 0x00"
  by (auto simp: char_eq_code [of _ "CHR ''_''"] char_eq_code [of _ "CHR ''-''"]
        char_eq_code [of _ "CHR ''+''"] char_eq_code [of _ "CHR ''.''"]
        char_eq_code [of _ "CHR ''e''"] char_eq_code [of _ "CHR ''E''"]
        char_eq_code [of _ "CHR 0x00"] of_char_lower)

lemma lower_idem: "py_lower_char (py_lower_char c) = py_lower_char c"
  by (auto simp: char_eq_code [of "py_lower_char (py_lower_char c)"] of_char_lower)


lemma takeWhile_digit_lower: "takeWhile is_digit (py_lower s) = takeWhile is_digit s"
  by (induction s) (simp_all add: py_lower_def lower_is_digit lower_digit_fix)

lemma dropWhile_digit_lower: "dropWhile is_digit (py_lower s) = py_lower (dropWhile is_digit s)"
  by (induction s) (simp_all add: py_lower_def lower_is_digit)

lemma all_digit_lower: "list_all is_digit (py_lower s) = list_all is_digit s"
  by (induction s) (simp_all add: py_lower_def lower_is_digit)

lemma digits_lower_fix: "list_all is_digit s \<Longrightarrow> py_lower s = s"
  by (induction s) (simp_all add: py_lower_def lower_digit_fix)

lemma py_lower_simps:
  "py_lower [] = []" "py_lower (c # cs) = py_lower_char c # py_lower cs"
  "(py_lower s = []) = (s = [])"
  by (simp_all add: py_lower_def)

lemma py_lower_idem: "py_lower (py_lower s) = py_lower s"
  by (simp add: py_lower_def lower_idem)

lemma parse_exponent_digits_lower:
  "(if ds \<noteq> [] \<and> list_all is_digit ds then Some (f (digits_val ds)) else None)
   = (if py_lower ds \<noteq> [] \<and> list_all is_digit (py_lower ds)
      then Some (f (digits_val (py_lower ds))) else None)"
  using digits_lower_fix [of ds] by (auto simp: all_digit_lower py_lower_simps)

lemma parse_exponent_lower: "parse_exponent (py_lower r) = parse_exponent r"
proof (cases r)
  case Nil
  then show ?thesis by (simp add: parse_exponent_def py_lower_simps)
next
  case (Cons c t)
  show ?thesis
  proof (cases "c = CHR ''e'' \<or> c = CHR ''E''")
    case False
    then show ?thesis
      using Cons by (simp add: parse_exponent_def py_lower_simps lower_eq_punct)
  next
    case e: True
    show ?thesis
    proof (cases t)
      case Nil
      then show ?thesis
        using Cons e by (auto simp: parse_exponent_def py_lower_simps lower_eq_punct)
    next
      case (Cons d u)
      have du: "list_all is_digit (py_lower u) = list_all is_digit u"
        "list_all is_digit u \<Longrightarrow> py_lower u = u"
        by (simp_all add: all_digit_lower digits_lower_fix)
      have dt: "list_all is_digit (py_lower_char d # py_lower u) = list_all is_digit (d # u)"
        "list_all is_digit (d # u) \<Longrightarrow> py_lower_char d # py_lower u = d # u"
        using all_digit_lower [of "d # u"] digits_lower_fix [of "d # u"]
        by (simp_all add: py_lower_simps)
      show ?thesis
        using \<open>r = c # t\<close> Cons e du dt
        by (auto simp: parse_exponent_def py_lower_simps lower_eq_punct Let_def)
    qed
  qed
qed

lemma fraction_digits_lower:
  "(case py_lower r of [] \<Rightarrow> []
    | c # t \<Rightarrow> if c = CHR ''.'' then takeWhile is_digit t else [])
   = (case r of [] \<Rightarrow> []
      | c # t \<Rightarrow> if c = CHR ''.'' then takeWhile is_digit t else [])"
  by (cases r) (simp_all add: py_lower_simps lower_eq_punct takeWhile_digit_lower)

lemma fraction_rest_lower:
  "(case py_lower r of [] \<Rightarrow> []
    | c # t \<Rightarrow> if c = CHR ''.'' then dropWhile is_digit t else py_lower r)
   = py_lower (case r of [] \<Rightarrow> []
      | c # t \<Rightarrow> if c = CHR ''.'' then dropWhile is_digit t else r)"
  by (cases r) (simp_all add: py_lower_simps lower_eq_punct dropWhile_digit_lower)

lemma parse_decimal_lower: "parse_decimal (py_lower s) = parse_decimal s"
  by (simp only: parse_decimal_def Let_def takeWhile_digit_lower dropWhile_digit_lower
        fraction_digits_lower fraction_rest_lower parse_exponent_lower)

lemma parse_unsigned_lower: "parse_unsigned (py_lower b) = parse_unsigned b"
  by (simp add: parse_unsigned_def py_lower_idem parse_decimal_lower)

lemma dropWhile_space_lower:
  "dropWhile num_space (py_lower s) = py_lower (dropWhile num_space s)"
  by (induction s) (simp_all add: py_lower_def lower_num_space)

lemma strip_num_lower: "strip_with num_space (py_lower s) = py_lower (strip_with num_space s)"
proof -
  have r: "\<And>x. rev (py_lower x) = py_lower (rev x)" by (simp add: py_lower_def rev_map)
  show ?thesis
    by (simp add: strip_with_def dropWhile_space_lower r)
qed

lemma underscores_lower:
  "underscores_ok (py_lower_char p) (py_lower s) = underscores_ok p s"
  by (induction s arbitrary: p) (simp_all add: py_lower_simps lower_eq_punct lower_is_digit)

lemma underscores_lower0: "underscores_ok (CHR 0x00) (py_lower s) = underscores_ok (CHR 0x00) s"
  using underscores_lower [of "CHR 0x00" s] by (simp add: lower_eq_punct)

lemma drop_underscores_lower: "drop_underscores (py_lower s) = py_lower (drop_underscores s)"
  by (induction s) (simp_all add: drop_underscores_def py_lower_simps lower_eq_punct)

lemma sign_lower:
  "(case py_lower u of [] \<Rightarrow> False | c # v \<Rightarrow> c = CHR ''-'')
   = (case u of [] \<Rightarrow> False | c # v \<Rightarrow> c = CHR ''-'')"
  by (cases u) (simp_all add: py_lower_simps lower_eq_punct)

lemma unsigned_part_lower:
  "(case py_lower u of [] \<Rightarrow> []
    | c # v \<Rightarrow> if c = CHR ''-'' \<or> c = CHR ''+'' then v else py_lower u)
   = py_lower (case u of [] \<Rightarrow> []
      | c # v \<Rightarrow> if c = CHR ''-'' \<or> c = CHR ''+'' then v else u)"
  by (cases u) (simp_all add: py_lower_simps lower_eq_punct)

lemma py_float_lower: "py_float (py_lower s) = py_float s"
  by (simp only: py_float_def Let_def strip_num_lower underscores_lower0
        drop_underscores_lower sign_lower unsigned_part_lower parse_unsigned_lower)

lemma int_float_lower: "int_float (py_lower s) = int_float s"
  by (simp add: int_float_def py_float_lower)

lemma int_float_error: "int_float s = Inl e \<Longrightarrow> e = ValueError \<or> e = OverflowError"
proof -
  assume a: "int_float s = Inl e"
  show ?thesis
  proof (cases "py_float s")
    case (Inl e')
    then have "e' = ValueError"
      by (auto simp: py_float_def Let_def split: if_splits option.splits)
    with a Inl show ?thesis by (simp add: int_float_def)
  next
    case (Inr x)
    with a show ?thesis by (cases x) (auto simp: int_float_def)
  qed
qed

lemma is_valid_pcf_id_True_iff: "(is_valid_pcf_id val = Inr True) = spec_valid_identifier val"
proof (cases "cell_text val")
  case None
  then show ?thesis by (simp add: is_valid_pcf_id_def spec_valid_identifier_def)
next
  case (Some t)
  then show ?thesis
    by (auto simp: is_valid_pcf_id_def spec_valid_identifier_def int_float_lower Let_def
             split: sum.splits)
qed

lemma is_valid_pcf_id_cases:
  "is_valid_pcf_id val = Inr True \<or> is_valid_pcf_id val = Inr False
   \<or> is_valid_pcf_id val = Inl OverflowError"
  by (cases "cell_text val")
     (auto simp: is_valid_pcf_id_def Let_def split: sum.splits dest: int_float_error)

lemma apply_xlsx_filters_error:
  "apply_xlsx_filters df = Inl e \<Longrightarrow> e = AttributeError \<or> e = OverflowError"
proof -
  assume a: "apply_xlsx_filters df = Inl e"
  have v: "\<And>xs e'. series_apply is_valid_pcf_id xs = Inl e' \<Longrightarrow> e' = OverflowError"
  proof -
    fix xs e'
    show "series_apply is_valid_pcf_id xs = Inl e' \<Longrightarrow> e' = OverflowError"
    proof (induction xs)
      case Nil
      then show ?case by simp
    next
      case (Cons x xs)
      then show ?case
        using is_valid_pcf_id_cases [of x] by (auto split: sum.splits)
    qed
  qed
  show ?thesis
    using a str_accessor_error v
    by (auto simp: apply_xlsx_filters_unfold split: sum.splits)
qed

lemma is_valid_examples:
  "is_valid_pcf_id (Str ''123'') = Inr True"
  "is_valid_pcf_id (Str ''123.0'') = Inr True"
  "is_valid_pcf_id (Num ''123.0'') = Inr True"
  "is_valid_pcf_id (Str ''Sin ID'') = Inr False"
  "is_valid_pcf_id (Str ''N/A'') = Inr False"
  "is_valid_pcf_id (Str []) = Inr False"
  "is_valid_pcf_id NA = Inr False"
  by (simp_all add: is_valid_pcf_id_def sentinels_def int_float_123 char_defs str_defs)

lemma py_float_ABC123: "py_float ''abc123'' = Inl ValueError"
  by (simp add: py_float_def parse_unsigned_def parse_decimal_def char_defs str_defs)

lemma lower_ABC123: "py_lower ''ABC123'' = ''abc123''"
  by (simp add: char_defs)

lemma is_valid_ABC123: "is_valid_pcf_id (Str ''ABC123'') = Inr False"
  by (simp add: is_valid_pcf_id_def sentinels_def int_float_def py_float_ABC123
        py_strip_def strip_with_def py_isspace_def lower_ABC123)

lemma cell_int_float_examples:
  "cell_int_float (Str ''123'') = Inr 123" "cell_int_float (Str ''123.0'') = Inr 123"
  "cell_int_float (Num ''123.0'') = Inr 123"
  by (simp_all add: int_float_123)

text \<open>
  Claim C3. The check returns \<^verbatim>\<open>True\<close> exactly for the cells the specification calls
  valid: present, not blank once trimmed, not a sentinel token in any case, and such that
  \<^verbatim>\<open>int(float(_))\<close> of the trimmed text goes through. That the program lowers the text
  before it parses it makes no difference, since \<^verbatim>\<open>float\<close> ignores case. The texts
  \<^verbatim>\<open>123\<close> and \<^verbatim>\<open>123.0\<close> are valid and convert to 123; \<^verbatim>\<open>Sin ID\<close>, \<^verbatim>\<open>N/A\<close>, the
  empty text, a missing cell and \<^verbatim>\<open>ABC123\<close> are not valid.
\<close>

theorem is_valid_pcf_id_spec:
  "(is_valid_pcf_id val = Inr True) = spec_valid_identifier val
   \<and> is_valid_pcf_id (Str ''123'') = Inr True \<and> cell_int_float (Str ''123'') = Inr 123
   \<and> is_valid_pcf_id (Str ''123.0'') = Inr True \<and> cell_int_float (Str ''123.0'') = Inr 123
   \<and> is_valid_pcf_id (Str ''Sin ID'') = Inr False
   \<and> is_valid_pcf_id (Str ''N/A'') = Inr False
   \<and> is_valid_pcf_id (Str []) = Inr False
   \<and> is_valid_pcf_id NA = Inr False
   \<and> is_valid_pcf_id (Str ''ABC123'') = Inr False"
  using is_valid_pcf_id_True_iff [of val] is_valid_examples is_valid_ABC123
    cell_int_float_examples
  by simp

theorem is_valid_pcf_id_spec_witness:
  "spec_valid_identifier (Str ''123.0'') \<and> is_valid_pcf_id (Str ''123.0'') = Inr True
   \<and> \<not> spec_valid_identifier (Str ''Sin ID'') \<and> \<not> spec_valid_identifier NA"
  using is_valid_pcf_id_spec [of "Str ''123.0''"] is_valid_pcf_id_spec [of "Str ''Sin ID''"]
    is_valid_pcf_id_spec [of NA]
  by auto

section \<open>The batch of lookups\<close>

lemma dropWhile_agree: "\<forall>c \<in> set s. p c = q c \<Longrightarrow> dropWhile p s = dropWhile q s"
  by (induction s) auto

lemma strip_with_agree:
  assumes "\<forall>c \<in> set s. p c = q c"
  shows "strip_with p s = strip_with q s"
proof -
  have 1: "dropWhile p s = dropWhile q s" using assms by (rule dropWhile_agree)
  have "\<forall>c \<in> set (rev (dropWhile q s)). p c = q c"
    using assms by (auto dest: set_dropWhileD)
  then have "dropWhile p (rev (dropWhile q s)) = dropWhile q (rev (dropWhile q s))"
    by (rule dropWhile_agree)
  then show ?thesis by (simp add: strip_with_def 1)
qed

lemma dropWhile_hd: "dropWhile p s \<noteq> [] \<Longrightarrow> \<not> p (hd (dropWhile p s))"
  by (induction s) auto

lemma dropWhile_fix: "s = [] \<or> \<not> p (hd s) \<Longrightarrow> dropWhile p s = s"
  by (cases s) auto

lemma strip_with_idem: "strip_with p (strip_with p s) = strip_with p s"
proof -
  let ?d = "dropWhile p s"
  let ?e = "dropWhile p (rev ?d)"
  have e: "?e = [] \<or> \<not> p (hd ?e)" using dropWhile_hd [of p "rev ?d"] by blast
  show ?thesis
  proof (cases "?e = []")
    case True
    have "strip_with p s = []" by (simp only: strip_with_def True rev.simps)
    moreover have "strip_with p [] = []" by (simp add: strip_with_def)
    ultimately show ?thesis by simp
  next
    case False
    have ne: "?d \<noteq> []"
    proof
      assume a: "?d = []"
      have "?e = []" unfolding a by simp
      with False show False by blast
    qed
    then have h: "\<not> p (hd ?d)" by (rule dropWhile_hd)
    have "?e \<noteq> []" by (rule False)
    obtain ys where ys: "rev ?d = takeWhile p (rev ?d) @ ?e" by simp
    have "last ?e = last (rev ?d)"
      using False by (metis last_appendR takeWhile_dropWhile_id)
    then have "last ?e = hd ?d" using ne by (simp add: last_rev)
    then have "hd (rev ?e) = hd ?d" using False by (simp add: hd_rev)
    then have 1: "dropWhile p (rev ?e) = rev ?e"
      using h by (intro dropWhile_fix) simp
    have 2: "dropWhile p (rev (rev ?e)) = ?e"
      using e False by (simp add: dropWhile_fix)
    show ?thesis by (simp only: strip_with_def 1 2)
  qed
qed

lemma py_float_strip: "py_float (strip_with num_space s) = py_float s"
  by (simp only: py_float_def strip_with_idem)

lemma space_agree:
  "(of_char c :: nat) \<notin> {28, 29, 30, 31} \<Longrightarrow> py_isspace c = num_space c"
  by (auto simp: py_isspace_def num_space_def)

lemma valid_converts:
  assumes v: "is_valid_pcf_id (Str s) = Inr True"
    and sep: "\<forall>c \<in> set s. (of_char c :: nat) \<notin> {28, 29, 30, 31}"
  shows "\<exists>n. cell_int_float (Str s) = Inr n"
proof -
  from v obtain n where n: "int_float (py_lower (py_strip s)) = Inr n"
    by (auto simp: is_valid_pcf_id_def Let_def split: if_splits sum.splits)
  have "py_strip s = strip_with num_space s"
    unfolding py_strip_def using sep space_agree by (intro strip_with_agree) blast
  then have "int_float (py_strip s) = int_float s"
    by (simp add: int_float_def py_float_strip)
  then show ?thesis using n by (simp add: int_float_lower)
qed

lemma batch_tasks_all:
  "\<forall>r \<in> set rows. \<exists>n. cell_int_float (col_pcf_id r) = Inr n \<Longrightarrow>
   \<exists>tasks. batch_tasks rows = Inr tasks \<and> map snd tasks = rows
     \<and> (\<forall>t \<in> set tasks. cell_int_float (col_pcf_id (snd t)) = Inr (fst t))"
proof (induction rows)
  case Nil
  show ?case by simp
next
  case (Cons r rows)
  then obtain tasks where t: "batch_tasks rows = Inr tasks" "map snd tasks = rows"
    "\<forall>t \<in> set tasks. cell_int_float (col_pcf_id (snd t)) = Inr (fst t)"
    by auto
  from Cons.prems obtain n where n: "cell_int_float (col_pcf_id r) = Inr n" by auto
  show ?case using t n by simp
qed

lemma future_result_isolated:
  "future_result (Raised e) = error_result"
  "check_product_api outcome = Inl e \<Longrightarrow> future_result outcome = error_result"
  "\<not> resp_ok status \<Longrightarrow> status \<noteq> 404 \<Longrightarrow> future_result (Response status body) = error_result"
  "future_result (Response 404 body) = not_found_result"
  by (auto simp: future_result_def check_product_api_def except_request_def resp_ok_def
           split: sum.splits if_splits)

lemma make_result_fields:
  "row (make_result n r a) = r" "pcf_id (make_result n r a) = n"
  "api_status (make_result n r a) = api_status a" "stock_pcf (make_result n r a) = stock_pcf a"
  "mayorista (make_result n r a) = mayorista a" "ficha_vacia (make_result n r a) = ficha_vacia a"
  by (simp_all add: make_result_def)

lemma check_products_batch_all:
  assumes conv: "\<forall>r \<in> set rows. \<exists>n. cell_int_float (col_pcf_id r) = Inr n"
    and perm: "mset completion = mset [0..<length rows]"
  shows "\<exists>results. check_products_batch transport completion rows = Inr results
     \<and> length results = length rows
     \<and> mset (map row results) = mset rows
     \<and> (\<forall>c \<in> set results. cell_int_float (col_pcf_id (row c)) = Inr (pcf_id c))
     \<and> map (\<lambda>c. api_status c) results
         = map (\<lambda>i. api_status (future_result (transport i))) completion"
proof -
  from batch_tasks_all [OF conv] obtain tasks where
    t: "batch_tasks rows = Inr tasks" "map snd tasks = rows"
    "\<forall>t \<in> set tasks. cell_int_float (col_pcf_id (snd t)) = Inr (fst t)"
    by blast
  let ?mk = "\<lambda>i. make_result (fst (tasks ! i)) (snd (tasks ! i)) (future_result (transport i))"
  have len: "length tasks = length rows" using t(2) by (metis length_map)
  have res: "check_products_batch transport completion rows = Inr (map ?mk completion)"
    by (simp add: check_products_batch_def t(1))
  have set_c: "set completion = {0..<length rows}"
    using perm by (metis mset_eq_setD set_upt)
  have "map row (map ?mk completion) = map (\<lambda>i. snd (tasks ! i)) completion"
    by (simp add: make_result_fields)
  then have "mset (map row (map ?mk completion))
             = mset (map (\<lambda>i. snd (tasks ! i)) completion)"
    by (simp only:)
  also have "\<dots> = image_mset (\<lambda>i. snd (tasks ! i)) (mset completion)"
    by (simp only: mset_map)
  also have "\<dots> = image_mset (\<lambda>i. snd (tasks ! i)) (mset [0..<length tasks])"
    by (simp add: perm len)
  also have "\<dots> = mset (map (\<lambda>i. snd (tasks ! i)) [0..<length tasks])"
    by simp
  also have "map (\<lambda>i. snd (tasks ! i)) [0..<length tasks] = map snd tasks"
    by (intro nth_equalityI) simp_all
  finally have m: "mset (map row (map ?mk completion)) = mset rows"
    by (simp add: t(2))
  have l: "length (map ?mk completion) = length rows"
    using perm by (metis length_map length_upt mset_eq_length minus_nat.diff_0)
  have p: "\<forall>c \<in> set (map ?mk completion). cell_int_float (col_pcf_id (row c)) = Inr (pcf_id c)"
    using t(3) set_c len by (auto simp: make_result_fields)
  have s: "map (\<lambda>c. api_status c) (map ?mk completion)
           = map (\<lambda>i. api_status (future_result (transport i))) completion"
    by (simp add: make_result_fields)
  show ?thesis using res l m p s by blast
qed

lemma strip_separator: "py_strip (CHR 0x1C # ''123'') = ''123''"
  by (simp add: char_defs str_defs)

lemma is_valid_separator: "is_valid_pcf_id (Str (CHR 0x1C # ''123'')) = Inr True"
proof -
  have l: "py_lower ''123'' = ''123''" by (simp add: char_defs)
  show ?thesis
    by (simp add: is_valid_pcf_id_def strip_separator l sentinels_def int_float_123)
qed

lemma int_float_separator: "int_float (CHR 0x1C # ''123'') = Inl ValueError"
  by (simp add: int_float_def py_float_def parse_unsigned_def parse_decimal_def
        char_defs str_defs)

text \<open>
  When every row converts, the batch returns one entry per row, each with its own row,
  its own identifier and the result of its own request, and a request that fails gives
  the error result for that entry alone (lemmas \<open>check_products_batch_all\<close> and
  \<open>future_result_isolated\<close>). A valid identifier converts as long as its text holds none
  of the separators U+001C to U+001F (lemma \<open>valid_converts\<close>).
\<close>

text \<open>
  Claim C7. The identifier check trims with \<^verbatim>\<open>str.strip()\<close>, which removes the
  separators U+001C to U+001F; the batch converts the untrimmed cell, and \<^verbatim>\<open>float\<close>
  does not accept them. A stocked row whose identifier is U+001C followed by
  \<^verbatim>\<open>123\<close> is valid and is handed to the batch in \<^verbatim>\<open>has_pcf_id\<close>; there the conversion
  raises \<^verbatim>\<open>ValueError\<close>, the row is skipped, and no lookup result is produced for it.
\<close>

theorem check_products_batch_skips_valid_row:
  "is_valid_pcf_id (col_pcf_id (sample_row (Str (CHR 0x1C # ''123'')) (Some 5) (Str ''NEW''))) = Inr True
   \<and> (\<exists>st. apply_xlsx_filters [sample_row (Str (CHR 0x1C # ''123'')) (Some 5) (Str ''NEW'')] = Inr st
          \<and> has_pcf_id st = [sample_row (Str (CHR 0x1C # ''123'')) (Some 5) (Str ''NEW'')]
          \<and> no_pcf_id st = [])
   \<and> cell_int_float (col_pcf_id (sample_row (Str (CHR 0x1C # ''123'')) (Some 5) (Str ''NEW'')))
       = Inl ValueError
   \<and> batch_tasks [sample_row (Str (CHR 0x1C # ''123'')) (Some 5) (Str ''NEW'')] = Inr []
   \<and> check_products_batch transport [] [sample_row (Str (CHR 0x1C # ''123'')) (Some 5) (Str ''NEW'')]
       = Inr []"
proof -
  have c: "col_pcf_id (sample_row (Str (CHR 0x1C # ''123'')) (Some 5) (Str ''NEW''))
           = Str (CHR 0x1C # ''123'')"
    by (simp add: sample_row_def)
  have f: "cell_int_float (Str (CHR 0x1C # ''123'')) = Inl ValueError"
    by (simp add: int_float_separator)
  have t: "batch_tasks [sample_row (Str (CHR 0x1C # ''123'')) (Some 5) (Str ''NEW'')] = Inr []"
    by (simp add: c int_float_separator)
  have b: "check_products_batch transport [] [sample_row (Str (CHR 0x1C # ''123'')) (Some 5) (Str ''NEW'')]
           = Inr []"
    unfolding check_products_batch_def t by simp
  show ?thesis
    using sample_filters_valid [OF is_valid_separator] is_valid_separator c f t b by simp
qed

end
